theory Spec2Isabelle
  imports Main "HOL-Library.Word"
begin

section \<open>Go library functions the program calls\<close>

text \<open>
  Go strings are byte sequences; \<open>string\<close> (a \<open>char list\<close>, one \<open>char\<close> per byte)
  models them, and \<open>length\<close> is Go's \<open>len\<close>.

  \<open>Split sep s\<close> is \<^verbatim>\<open>strings.Split(s, sep)\<close> for a one-byte separator: the pieces
  between the separators, and one (empty) piece for the empty string.
\<close>

fun Split :: "char \<Rightarrow> string \<Rightarrow> string list" where
  "Split sep [] = [[]]"
| "Split sep (c # cs) =
     (if c = sep then [] # Split sep cs
      else (case Split sep cs of [] \<Rightarrow> [[c]] | l # ls \<Rightarrow> (c # l) # ls))"

text \<open>
  \<open>SplitN2 sep s\<close> is \<^verbatim>\<open>strings.SplitN(s, sep, 2)\<close>: the text before the first
  separator and the unsplit remainder after it, or the string alone when it holds no
  separator.
\<close>

definition SplitN2 :: "char \<Rightarrow> string \<Rightarrow> string list" where
  "SplitN2 sep s =
     (if sep \<in> set s
      then [takeWhile (\<lambda>c. c \<noteq> sep) s, tl (dropWhile (\<lambda>c. c \<noteq> sep) s)]
      else [s])"

text \<open>
  \<^verbatim>\<open>strings.TrimSpace\<close> removes leading and trailing white space as Unicode defines
  it, reading the bytes as UTF-8. \<open>space_runes\<close> lists the UTF-8 encodings of the runes
  for which \<^verbatim>\<open>unicode.IsSpace\<close> holds: tab, line feed, vertical tab, form feed,
  carriage return, space, U+0085, U+00A0, U+1680, U+2000 to U+200A, U+2028, U+2029,
  U+202F, U+205F and U+3000. An encoding never is a prefix of another one, and its
  bytes after the first are continuation bytes, so decoding a rune at the front (or at
  the back) of a string yields white space exactly when one of these encodings is a
  prefix (a suffix) of the string.
\<close>

definition space_runes :: "string list" where
  "space_runes =
     [[CHR 0x09], [CHR 0x0A], [CHR 0x0B], [CHR 0x0C], [CHR 0x0D], [CHR 0x20],
      [CHR 0xC2, CHR 0x85], [CHR 0xC2, CHR 0xA0],
      [CHR 0xE1, CHR 0x9A, CHR 0x80],
      [CHR 0xE2, CHR 0x80, CHR 0x80], [CHR 0xE2, CHR 0x80, CHR 0x81],
      [CHR 0xE2, CHR 0x80, CHR 0x82], [CHR 0xE2, CHR 0x80, CHR 0x83],
      [CHR 0xE2, CHR 0x80, CHR 0x84], [CHR 0xE2, CHR 0x80, CHR 0x85],
      [CHR 0xE2, CHR 0x80, CHR 0x86], [CHR 0xE2, CHR 0x80, CHR 0x87],
      [CHR 0xE2, CHR 0x80, CHR 0x88], [CHR 0xE2, CHR 0x80, CHR 0x89],
      [CHR 0xE2, CHR 0x80, CHR 0x8A],
      [CHR 0xE2, CHR 0x80, CHR 0xA8], [CHR 0xE2, CHR 0x80, CHR 0xA9],
      [CHR 0xE2, CHR 0x80, CHR 0xAF],
      [CHR 0xE2, CHR 0x81, CHR 0x9F],
      [CHR 0xE3, CHR 0x80, CHR 0x80]]"

text \<open>The width in bytes of the white-space rune a string starts with; 0 when it starts with none.\<close>

definition space_width :: "string \<Rightarrow> nat" where
  "space_width s =
     (case filter (\<lambda>r. take (length r) s = r) space_runes of
        [] \<Rightarrow> 0
      | r # _ \<Rightarrow> length r)"

text \<open>The width in bytes of the white-space rune a string ends with; 0 when it ends with none.\<close>

definition space_width_last :: "string \<Rightarrow> nat" where
  "space_width_last s =
     (case filter (\<lambda>r. length r \<le> length s \<and> drop (length s - length r) s = r) space_runes of
        [] \<Rightarrow> 0
      | r # _ \<Rightarrow> length r)"

function TrimLeft :: "string \<Rightarrow> string" where
  "TrimLeft s = (if space_width s = 0 then s else TrimLeft (drop (space_width s) s))"
  by pat_completeness auto
termination
proof (relation "measure length")
  show "wf (measure length)" by simp
next
  fix s :: string
  assume nz: "space_width s \<noteq> 0"
  have "space_width s \<le> length s"
  proof (cases "filter (\<lambda>r. take (length r) s = r) space_runes")
    case Nil
    then show ?thesis by (simp add: space_width_def)
  next
    case (Cons r rs)
    then have "r \<in> set (filter (\<lambda>r. take (length r) s = r) space_runes)" by simp
    then have "take (length r) s = r" by simp
    then have "length r \<le> length s"
      by (metis length_take min.cobounded1)
    with Cons show ?thesis by (simp add: space_width_def)
  qed
  with nz show "(drop (space_width s) s, s) \<in> measure length" by simp
qed

function TrimRight :: "string \<Rightarrow> string" where
  "TrimRight s =
     (if space_width_last s = 0 then s else TrimRight (take (length s - space_width_last s) s))"
  by pat_completeness auto
termination
proof (relation "measure length")
  show "wf (measure length)" by simp
next
  fix s :: string
  assume nz: "space_width_last s \<noteq> 0"
  have "space_width_last s \<le> length s"
  proof (cases "filter (\<lambda>r. length r \<le> length s \<and> drop (length s - length r) s = r) space_runes")
    case Nil
    then show ?thesis by (simp add: space_width_last_def)
  next
    case (Cons r rs)
    then have "r \<in> set (filter (\<lambda>r. length r \<le> length s \<and> drop (length s - length r) s = r) space_runes)"
      by simp
    then have "length r \<le> length s" by simp
    with Cons show ?thesis by (simp add: space_width_last_def)
  qed
  with nz show "(take (length s - space_width_last s) s, s) \<in> measure length" by simp
qed

definition TrimSpace :: "string \<Rightarrow> string" where
  "TrimSpace s = TrimRight (TrimLeft s)"

text \<open>
  \<^verbatim>\<open>strconv.Atoi\<close> on a 64-bit target: an optional sign, then one or more decimal
  digits and nothing else, and the value has to fit a signed 64-bit integer.
\<close>

definition is_digit :: "char \<Rightarrow> bool" where
  "is_digit c = (c \<in> set ''0123456789'')"

definition decimal :: "string \<Rightarrow> int" where
  "decimal ds = foldl (\<lambda>n c. n * 10 + (of_char c - 48)) 0 ds"

definition Atoi :: "string \<Rightarrow> int option" where
  "Atoi s =
     (let neg = (s \<noteq> [] \<and> hd s = CHR ''-'');
          ds = (if s \<noteq> [] \<and> (hd s = CHR ''-'' \<or> hd s = CHR ''+'') then tl s else s)
      in if ds = [] \<or> \<not> list_all is_digit ds then None
         else let n = decimal ds; i = (if neg then - n else n)
              in if - (2 ^ 63) \<le> i \<and> i < 2 ^ 63 then Some i else None)"

text \<open>
  The process environment: \<^verbatim>\<open>os.LookupEnv\<close> tells an unset variable (\<open>None\<close>) from
  one set to the empty string, \<^verbatim>\<open>os.Getenv\<close> does not.
\<close>

type_synonym environ = "string \<rightharpoonup> string"

definition LookupEnv :: "environ \<Rightarrow> string \<Rightarrow> string option" where
  "LookupEnv env k = env k"

definition Getenv :: "environ \<Rightarrow> string \<Rightarrow> string" where
  "Getenv env k = (case env k of None \<Rightarrow> [] | Some v \<Rightarrow> v)"

section \<open>The data model of goreman.go\<close>

text \<open>
  Go's \<^verbatim>\<open>uint\<close> is a 64-bit word on the 64-bit targets modelled here: \<open>+\<close> wraps
  around. \<^verbatim>\<open>errors.New\<close> values are \<open>ErrorsNew\<close> with their message; errors of the
  operating system are \<open>OsError\<close>. The errors of the \<^verbatim>\<open>flag\<close> package are
  \<open>flag_error\<close>, one constructor per message. A run-time panic and \<^verbatim>\<open>os.Exit\<close> end the program:
  they are outcomes of their own, beside the normal return.
\<close>

type_synonym uint = "64 word"

datatype error = ErrorsNew string | OsError string

datatype flag_error =
    ErrHelp
  | BadFlagSyntax string
  | NotDefined string
  | InvalidBoolean string string
  | NeedsArgument string
  | InvalidValue string string

datatype panic = IndexOutOfRange | DivideByZero | FlagRedefined string | FlagPanic flag_error

datatype 'a outcome = Panic panic | Exit nat | Return 'a

record Config =
  Args :: "string list"
  Procfile :: string
  StartRpcServer :: bool
  RpcPort :: uint
  BaseDir :: string
  BasePort :: uint
  ExitOnError :: bool
  ExitOnStop :: bool
  SetPorts :: bool
  LogTime :: bool

text \<open>
  \<^verbatim>\<open>ProcInfo\<close>: \<open>cmd\<close> is the handle of the running child (\<^verbatim>\<open>nil\<close> is \<open>None\<close>) and
  \<open>waitErr\<close> the error of its last wait. The mutex and the condition variable of the
  Go struct hold no data and are left out.
\<close>

record ProcInfo =
  name :: string
  cmdline :: string
  cmd :: "nat option"
  port :: uint
  setPort :: bool
  colorIndex :: nat
  stoppedBySupervisor :: bool
  waitErr :: "error option"
  logTime :: bool

text \<open>The package-level variables \<^verbatim>\<open>procs\<close> and \<^verbatim>\<open>maxProcNameLength\<close>.\<close>

record globals =
  procs :: "ProcInfo list"
  maxProcNameLength :: nat

text \<open>
  What the program reads from outside: the file system as seen from the working
  directory in which the Procfile is read (per path: the file is missing,
  \<^verbatim>\<open>os.Stat\<close> fails otherwise, \<^verbatim>\<open>os.ReadFile\<close> fails, or the file has contents), the
  length of the colour table \<^verbatim>\<open>colors\<close> (declared in a file that is not among the
  sources here), and whether \<^verbatim>\<open>runtime.GOOS\<close> is \<^verbatim>\<open>"windows"\<close>.
\<close>

datatype fstate = NotExist | StatFails error | ReadFails error | Contents string

record world =
  fsys :: "string \<Rightarrow> fstate"
  ncolors :: nat
  windows :: bool

section \<open>readProcfile\<close>

text \<open>
  On Windows the command line is rewritten by
  \<^verbatim>\<open>re.ReplaceAllStringFunc(v, func(s) { return "%" + s[1:] + "%" })\<close> with
  \<^verbatim>\<open>re = \$([a-zA-Z]+[a-zA-Z0-9_]+)\<close>: a match is a dollar sign followed by a letter
  and at least one more word character, and it extends over the whole run of word
  characters; matches are found from left to right and do not overlap.
\<close>

definition is_letter :: "char \<Rightarrow> bool" where
  "is_letter c = (c \<in> set ''abcdefghijklmnopqrstuvwxyzABCDEFGHIJKLMNOPQRSTUVWXYZ'')"

definition is_word :: "char \<Rightarrow> bool" where
  "is_word c = (is_letter c \<or> is_digit c \<or> c = CHR ''_'')"

function winEnv :: "string \<Rightarrow> string" where
  "winEnv [] = []"
| "winEnv (c # cs) =
     (if c = CHR ''$'' \<and> cs \<noteq> [] \<and> is_letter (hd cs) \<and> 2 \<le> length (takeWhile is_word cs)
      then CHR ''%'' # takeWhile is_word cs @ CHR ''%'' # winEnv (dropWhile is_word cs)
      else c # winEnv cs)"
  by pat_completeness auto
termination
  by (relation "measure length") (auto simp: length_dropWhile_le less_Suc_eq_le)

text \<open>
  The loop of \<^verbatim>\<open>readProcfile\<close> over the lines of the file. Its state is the
  configuration (the loop advances \<open>BasePort\<close>), the entries appended so far,
  \<^verbatim>\<open>maxProcNameLength\<close> and \<^verbatim>\<open>index\<close>. \<^verbatim>\<open>tokens[0][0]\<close> panics when the text
  before the separator is empty, and \<^verbatim>\<open>% len(colors)\<close> panics when the table is
  empty.
\<close>

fun parseLines ::
  "world \<Rightarrow> string list \<Rightarrow> Config \<times> ProcInfo list \<times> nat \<times> nat \<Rightarrow>
   (Config \<times> ProcInfo list \<times> nat \<times> nat) outcome" where
  "parseLines w [] s = Return s"
| "parseLines w (line # rest) (cfg, ps, maxLen, index) =
     (let tokens = SplitN2 CHR '':'' line in
      if length tokens \<noteq> 2 then parseLines w rest (cfg, ps, maxLen, index)
      else if tokens ! 0 = [] then Panic IndexOutOfRange
      else if hd (tokens ! 0) = CHR ''#'' then parseLines w rest (cfg, ps, maxLen, index)
      else
        let k = TrimSpace (tokens ! 0);
            v = TrimSpace (tokens ! 1);
            v = (if windows w then winEnv v else v);
            proc = \<lparr>name = k, cmdline = v, cmd = None, port = 0, setPort = False,
                    colorIndex = index, stoppedBySupervisor = False, waitErr = None,
                    logTime = LogTime cfg\<rparr>;
            proc = (if SetPorts cfg then proc\<lparr>setPort := True, port := BasePort cfg\<rparr> else proc);
            cfg = (if SetPorts cfg then cfg\<lparr>BasePort := BasePort cfg + 100\<rparr> else cfg);
            ps = ps @ [proc];
            maxLen = (if length k > maxLen then length k else maxLen)
        in if ncolors w = 0 then Panic DivideByZero
           else parseLines w rest (cfg, ps, maxLen, (index + 1) mod ncolors w))"

text \<open>
  \<^verbatim>\<open>readProcfile\<close> returns its error, the configuration (whose \<open>BasePort\<close> it has
  advanced) and the package-level variables. The early returns leave \<^verbatim>\<open>procs\<close> as it
  was; past them \<^verbatim>\<open>procs\<close> is replaced, also when the error is "no valid entry".
\<close>

definition readProcfile ::
  "world \<Rightarrow> Config \<Rightarrow> globals \<Rightarrow> (error option \<times> Config \<times> globals) outcome" where
  "readProcfile w cfg g =
     (case fsys w (Procfile cfg) of
        NotExist \<Rightarrow> Return (Some (ErrorsNew (''procfile does not exist:'' @ Procfile cfg)), cfg, g)
      | StatFails err \<Rightarrow> Return (Some err, cfg, g)
      | ReadFails err \<Rightarrow> Return (Some err, cfg, g)
      | Contents content \<Rightarrow>
          (case parseLines w (Split (CHR 0x0A) content) (cfg, [], maxProcNameLength g, 0) of
             Panic p \<Rightarrow> Panic p
           | Exit n \<Rightarrow> Exit n
           | Return (cfg', ps, maxLen, index) \<Rightarrow>
               Return (if length ps = 0 then Some (ErrorsNew ''no valid entry'') else None,
                       cfg', \<lparr>procs = ps, maxProcNameLength = maxLen\<rparr>)))"

section \<open>defaultAddr, defaultPort\<close>

definition defaultAddr :: "environ \<Rightarrow> string" where
  "defaultAddr env =
     (case LookupEnv env ''GOREMAN_RPC_ADDR'' of
        Some s \<Rightarrow> s
      | None \<Rightarrow> ''0.0.0.0'')"

text \<open>The conversion \<^verbatim>\<open>uint(i)\<close> of a signed integer is \<open>word_of_int\<close>.\<close>

definition defaultPort :: "environ \<Rightarrow> uint" where
  "defaultPort env =
     (let s = Getenv env ''GOREMAN_RPC_PORT'' in
      if s \<noteq> [] then (case Atoi s of Some i \<Rightarrow> word_of_int i | None \<Rightarrow> 8555)
      else 8555)"

section \<open>check, findProc, start\<close>

text \<open>\<^verbatim>\<open>check\<close> returns the error of \<^verbatim>\<open>readProcfile\<close>; the line it prints is not modelled.\<close>

definition check ::
  "world \<Rightarrow> Config \<Rightarrow> globals \<Rightarrow> (error option \<times> Config \<times> globals) outcome" where
  "check w cfg g = readProcfile w cfg g"

definition findProc :: "globals \<Rightarrow> string \<Rightarrow> ProcInfo option" where
  "findProc g n = find (\<lambda>proc. name proc = n) (procs g)"

text \<open>
  The loop of \<^verbatim>\<open>start\<close> over \<^verbatim>\<open>cfg.Args[1:]\<close>: it collects the entries found in
  \<^verbatim>\<open>tmp\<close> and recomputes \<^verbatim>\<open>maxProcNameLength\<close>; the first name that
  \<^verbatim>\<open>findProc\<close> does not find ends it (\<open>Inl\<close>, with the name and the
  \<^verbatim>\<open>maxProcNameLength\<close> reached).
\<close>

fun selectProcs ::
  "globals \<Rightarrow> string list \<Rightarrow> ProcInfo list \<times> nat \<Rightarrow> (string \<times> nat) + (ProcInfo list \<times> nat)" where
  "selectProcs g [] (tmp, maxLen) = Inr (tmp, maxLen)"
| "selectProcs g (v # vs) (tmp, maxLen) =
     (case findProc g v of
        None \<Rightarrow> Inl (v, maxLen)
      | Some proc \<Rightarrow>
          selectProcs g vs (tmp @ [proc], if length v > maxLen then length v else maxLen))"

text \<open>
  \<^verbatim>\<open>start\<close>. The functions \<^verbatim>\<open>startProcs\<close> and \<^verbatim>\<open>startServer\<close> are not among the
  sources: what they do together is the parameter \<open>startProcs\<close>, which from the
  configuration and the package-level variables yields the error \<^verbatim>\<open>startProcs\<close>
  returns and the supervisor's final state (of any type \<open>'r\<close>). The result of \<open>start\<close>
  holds that state only when \<^verbatim>\<open>startProcs\<close> was called. \<^verbatim>\<open>godotenv.Load\<close> changes
  the environment of the children only; its error is dropped by the code.
\<close>

definition start ::
  "world \<Rightarrow> (Config \<Rightarrow> globals \<Rightarrow> error option \<times> 'r) \<Rightarrow> Config \<Rightarrow> globals \<Rightarrow>
   (error option \<times> Config \<times> globals \<times> 'r option) outcome" where
  "start w startProcs cfg g =
     (case readProcfile w cfg g of
        Panic p \<Rightarrow> Panic p
      | Exit n \<Rightarrow> Exit n
      | Return (Some err, cfg', g') \<Rightarrow> Return (Some err, cfg', g', None)
      | Return (None, cfg', g') \<Rightarrow>
          (if length (Args cfg') > 1 then
             (case selectProcs g' (tl (Args cfg')) ([], 0) of
                Inl (v, maxLen) \<Rightarrow>
                  Return (Some (ErrorsNew (''unknown proc: '' @ v)), cfg',
                          g'\<lparr>maxProcNameLength := maxLen\<rparr>, None)
              | Inr (tmp, maxLen) \<Rightarrow>
                  (let g'' = \<lparr>procs = tmp, maxProcNameLength = maxLen\<rparr>;
                       (procsErr, r) = startProcs cfg' g''
                   in Return (procsErr, cfg', g'', Some r)))
           else
             (let (procsErr, r) = startProcs cfg' g'
              in Return (procsErr, cfg', g', Some r))))"

section \<open>MainWithConfig\<close>

text \<open>
  What \<^verbatim>\<open>MainWithConfig\<close> needs beside the world of \<^verbatim>\<open>readProcfile\<close>: the result of
  \<^verbatim>\<open>os.Chdir\<close>, \<^verbatim>\<open>os.Args\<close>, and the functions \<^verbatim>\<open>run\<close>, \<^verbatim>\<open>export\<close> and
  \<^verbatim>\<open>startProcs\<close>, which are not among the sources. \<^verbatim>\<open>Usage\<close> and
  \<^verbatim>\<open>ShowVersion\<close> print and call \<^verbatim>\<open>os.Exit(0)\<close>; an error ends the program with
  \<^verbatim>\<open>os.Exit(1)\<close>; with no error \<^verbatim>\<open>MainWithConfig\<close> returns. A \<^verbatim>\<open>nil\<close>
  configuration is \<open>None\<close> and stands for the zero value of \<^verbatim>\<open>Config\<close>.
\<close>

record 'r system =
  sys_world :: world
  chdir :: "string \<Rightarrow> error option"
  osArgs :: "string list"
  runCommand :: "string \<Rightarrow> string list \<Rightarrow> uint \<Rightarrow> error option"
  exportCommand :: "Config \<Rightarrow> string \<Rightarrow> string \<Rightarrow> error option"
  startProcs :: "Config \<Rightarrow> globals \<Rightarrow> error option \<times> 'r"

definition zeroConfig :: Config where
  "zeroConfig =
     \<lparr>Args = [], Procfile = [], StartRpcServer = False, RpcPort = 0, BaseDir = [],
      BasePort = 0, ExitOnError = False, ExitOnStop = False, SetPorts = False,
      LogTime = False\<rparr>"

definition error_of :: "(error option \<times> 'a) outcome \<Rightarrow> error option outcome" where
  "error_of r = (case r of Panic p \<Rightarrow> Panic p | Exit n \<Rightarrow> Exit n | Return (err, _) \<Rightarrow> Return err)"

definition MainWithConfig :: "'r system \<Rightarrow> Config option \<Rightarrow> globals \<Rightarrow> unit outcome" where
  "MainWithConfig sys cfgopt g =
     (let cfg = (case cfgopt of None \<Rightarrow> zeroConfig | Some c \<Rightarrow> c) in
      if BaseDir cfg \<noteq> [] \<and> chdir sys (BaseDir cfg) \<noteq> None then Exit 1
      else
        let command = (if length (Args cfg) > 0 then Args cfg ! 0
                       else if length (osArgs sys) > 1 then osArgs sys ! 1
                       else []);
            res =
              (if command = ''check'' then error_of (check (sys_world sys) cfg g)
               else if command = ''help'' then Exit 0
               else if command = ''run'' then
                 (if length (Args cfg) \<ge> 2
                  then Return (runCommand sys (Args cfg ! 1) (drop 2 (Args cfg)) (RpcPort cfg))
                  else Exit 0)
               else if command = ''export'' then
                 (if length (Args cfg) = 3
                  then Return (exportCommand sys cfg (Args cfg ! 1) (Args cfg ! 2))
                  else Exit 0)
               else if command = ''start'' then
                 error_of (start (sys_world sys) (startProcs sys) cfg g)
               else if command = ''version'' then Exit 0
               else Exit 0)
        in (case res of
              Panic p \<Rightarrow> Panic p
            | Exit n \<Rightarrow> Exit n
            | Return (Some err) \<Rightarrow> Exit 1
            | Return None \<Rightarrow> Return ()))"

section \<open>ParseConfigWithFlagSet\<close>

text \<open>
  The \<^verbatim>\<open>flag\<close> package of the Go library. \<open>argShape\<close> is the head of
  \<^verbatim>\<open>FlagSet.parseOne\<close>: an argument shorter than two bytes or not starting with a
  minus sign is no flag; \<^verbatim>\<open>--\<close> ends the flags; an empty name or a name starting
  with \<^verbatim>\<open>-\<close> or \<^verbatim>\<open>=\<close> is bad syntax; otherwise the argument is a flag, with the
  value after the first \<^verbatim>\<open>=\<close> of the name when it has one.
\<close>

datatype arg_shape = NonFlag | Terminator | BadSyntax | Flag string "string option"

definition argShape :: "string \<Rightarrow> arg_shape" where
  "argShape s =
     (if length s < 2 \<or> s ! 0 \<noteq> CHR ''-'' then NonFlag
      else
        let numMinuses = (if s ! 1 = CHR ''-'' then 2 else 1 :: nat) in
        if numMinuses = 2 \<and> length s = 2 then Terminator
        else
          let nm = drop numMinuses s in
          if length nm = 0 \<or> nm ! 0 = CHR ''-'' \<or> nm ! 0 = CHR ''='' then BadSyntax
          else if CHR ''='' \<in> set nm
          then Flag (takeWhile (\<lambda>c. c \<noteq> CHR ''='') nm)
                    (Some (tl (dropWhile (\<lambda>c. c \<noteq> CHR ''='') nm)))
          else Flag nm None)"

text \<open>\<^verbatim>\<open>strconv.ParseBool\<close>.\<close>

definition ParseBool :: "string \<Rightarrow> bool option" where
  "ParseBool s =
     (if s \<in> set [''1'', ''t'', ''T'', ''TRUE'', ''true'', ''True''] then Some True
      else if s \<in> set [''0'', ''f'', ''F'', ''FALSE'', ''false'', ''False''] then Some False
      else None)"

text \<open>
  A flag set as \<^verbatim>\<open>ParseConfigWithFlagSet\<close> receives it: how it handles a parse
  error, and the flags its caller has defined already (\<open>formal\<close>), each with whether
  it is a boolean flag and which values its \<^verbatim>\<open>Set\<close> accepts.
\<close>

datatype ErrorHandling = flag_ContinueOnError | flag_ExitOnError | flag_PanicOnError

datatype ext_flag = ExtFlag (isBoolFlag: bool) (accepts: "string \<Rightarrow> bool")

record FlagSet =
  errorHandling :: ErrorHandling
  formal :: "string \<rightharpoonup> ext_flag"

text \<open>The flags \<^verbatim>\<open>ParseConfigWithFlagSet\<close> defines, in the order it defines them.\<close>

definition configFlags :: "string list" where
  "configFlags =
     [''f'', ''p'', ''rpc-server'', ''basedir'', ''b'', ''set-ports'', ''exit-on-error'',
      ''exit-on-stop'', ''logtime'']"

definition boolFlags :: "string list" where
  "boolFlags = [''rpc-server'', ''set-ports'', ''exit-on-error'', ''exit-on-stop'', ''logtime'']"

text \<open>
  \<^verbatim>\<open>Value.Set\<close> of the flags of \<open>configFlags\<close>: the new configuration and whether
  the value was accepted. \<open>ParseUint\<close> stands for
  \<^verbatim>\<open>strconv.ParseUint(s, 0, strconv.IntSize)\<close>, a function of the Go library that is
  left a parameter: it yields a number and whether the text was one. The library's
  \<^verbatim>\<open>uintValue.Set\<close> and \<^verbatim>\<open>boolValue.Set\<close> store the parser's result also when
  the parser fails (then \<^verbatim>\<open>false\<close> for a boolean).
\<close>

definition setBool :: "string \<Rightarrow> (bool \<Rightarrow> Config) \<Rightarrow> Config \<times> bool" where
  "setBool v upd = (case ParseBool v of None \<Rightarrow> (upd False, False) | Some b \<Rightarrow> (upd b, True))"

definition setFlag ::
  "(string \<Rightarrow> uint \<times> bool) \<Rightarrow> string \<Rightarrow> string \<Rightarrow> Config \<Rightarrow> Config \<times> bool" where
  "setFlag ParseUint nm v cfg =
     (if nm = ''f'' then (cfg\<lparr>Procfile := v\<rparr>, True)
      else if nm = ''p'' then (cfg\<lparr>RpcPort := fst (ParseUint v)\<rparr>, snd (ParseUint v))
      else if nm = ''rpc-server'' then setBool v (\<lambda>b. cfg\<lparr>StartRpcServer := b\<rparr>)
      else if nm = ''basedir'' then (cfg\<lparr>BaseDir := v\<rparr>, True)
      else if nm = ''b'' then (cfg\<lparr>BasePort := fst (ParseUint v)\<rparr>, snd (ParseUint v))
      else if nm = ''set-ports'' then setBool v (\<lambda>b. cfg\<lparr>SetPorts := b\<rparr>)
      else if nm = ''exit-on-error'' then setBool v (\<lambda>b. cfg\<lparr>ExitOnError := b\<rparr>)
      else if nm = ''exit-on-stop'' then setBool v (\<lambda>b. cfg\<lparr>ExitOnStop := b\<rparr>)
      else if nm = ''logtime'' then setBool v (\<lambda>b. cfg\<lparr>LogTime := b\<rparr>)
      else (cfg, True))"

text \<open>
  \<^verbatim>\<open>FlagSet.parseOne\<close>: it has seen a flag (\<open>Seen\<close>, with the configuration and the
  arguments left), or the flags are over (\<open>Over\<close>), or it fails (\<open>Bad\<close>).
\<close>

datatype parse_step =
    Seen Config "string list"
  | Over "string list"
  | Bad flag_error Config "string list"

definition parseOne ::
  "(string \<Rightarrow> uint \<times> bool) \<Rightarrow> FlagSet \<Rightarrow> Config \<Rightarrow> string list \<Rightarrow> parse_step" where
  "parseOne ParseUint fs cfg args =
     (case args of
        [] \<Rightarrow> Over []
      | s # rest \<Rightarrow>
          (case argShape s of
             NonFlag \<Rightarrow> Over (s # rest)
           | Terminator \<Rightarrow> Over rest
           | BadSyntax \<Rightarrow> Bad (BadFlagSyntax s) cfg (s # rest)
           | Flag nm hasValue \<Rightarrow>
               (if nm \<in> set configFlags then
                  (if nm \<in> set boolFlags then
                     (case hasValue of
                        Some v \<Rightarrow>
                          (let (cfg', ok) = setFlag ParseUint nm v cfg
                           in if ok then Seen cfg' rest else Bad (InvalidBoolean v nm) cfg' rest)
                      | None \<Rightarrow> Seen (fst (setFlag ParseUint nm ''true'' cfg)) rest)
                   else
                     (case hasValue of
                        Some v \<Rightarrow>
                          (let (cfg', ok) = setFlag ParseUint nm v cfg
                           in if ok then Seen cfg' rest else Bad (InvalidValue v nm) cfg' rest)
                      | None \<Rightarrow>
                          (case rest of
                             [] \<Rightarrow> Bad (NeedsArgument nm) cfg []
                           | v # rest' \<Rightarrow>
                               (let (cfg', ok) = setFlag ParseUint nm v cfg
                                in if ok then Seen cfg' rest'
                                   else Bad (InvalidValue v nm) cfg' rest'))))
                else
                  (case formal fs nm of
                     None \<Rightarrow>
                       (if nm = ''help'' \<or> nm = ''h'' then Bad ErrHelp cfg rest
                        else Bad (NotDefined nm) cfg rest)
                   | Some fl \<Rightarrow>
                       (if isBoolFlag fl then
                          (case hasValue of
                             Some v \<Rightarrow>
                               (if accepts fl v then Seen cfg rest
                                else Bad (InvalidBoolean v nm) cfg rest)
                           | None \<Rightarrow>
                               (if accepts fl ''true'' then Seen cfg rest
                                else Bad (InvalidBoolean ''true'' nm) cfg rest))
                        else
                          (case hasValue of
                             Some v \<Rightarrow>
                               (if accepts fl v then Seen cfg rest
                                else Bad (InvalidValue v nm) cfg rest)
                           | None \<Rightarrow>
                               (case rest of
                                  [] \<Rightarrow> Bad (NeedsArgument nm) cfg []
                                | v # rest' \<Rightarrow>
                                    (if accepts fl v then Seen cfg rest'
                                     else Bad (InvalidValue v nm) cfg rest'))))))))"

text \<open>
  The loop of \<^verbatim>\<open>FlagSet.Parse\<close>: the configuration, the arguments left
  (\<^verbatim>\<open>fs.Args()\<close>) and the error it stopped at, if any.
\<close>

function Parse ::
  "(string \<Rightarrow> uint \<times> bool) \<Rightarrow> FlagSet \<Rightarrow> Config \<Rightarrow> string list \<Rightarrow>
   Config \<times> string list \<times> flag_error option" where
  "Parse ParseUint fs cfg args =
     (case parseOne ParseUint fs cfg args of
        Seen cfg' rest \<Rightarrow> Parse ParseUint fs cfg' rest
      | Over rest \<Rightarrow> (cfg, rest, None)
      | Bad err cfg' rest \<Rightarrow> (cfg', rest, Some err))"
  by pat_completeness auto
termination
  by (relation "measure (\<lambda>(ParseUint, fs, cfg, args). length args)")
     (auto simp: parseOne_def Let_def
           split: list.splits arg_shape.splits option.splits if_splits prod.splits)

text \<open>
  \<^verbatim>\<open>ParseConfigWithFlagSet\<close>. Defining a flag the set has already panics. The error
  of \<^verbatim>\<open>fs.Parse\<close> is dropped by the code, so it shows only through the error
  handling of the flag set: exit status 0 for \<^verbatim>\<open>ErrHelp\<close> and 2 otherwise, or a
  panic, or nothing.
\<close>

definition ParseConfigWithFlagSet ::
  "environ \<Rightarrow> (string \<Rightarrow> uint \<times> bool) \<Rightarrow> FlagSet \<Rightarrow> string list \<Rightarrow> Config outcome" where
  "ParseConfigWithFlagSet env ParseUint fs args =
     (case find (\<lambda>nm. formal fs nm \<noteq> None) configFlags of
        Some nm \<Rightarrow> Panic (FlagRedefined nm)
      | None \<Rightarrow>
          (let cfg = \<lparr>Args = [], Procfile = ''Procfile'', StartRpcServer = True,
                      RpcPort = defaultPort env, BaseDir = [], BasePort = defaultPort env,
                      ExitOnError = False, ExitOnStop = True, SetPorts = True,
                      LogTime = True\<rparr>;
               (cfg', rest, err) = Parse ParseUint fs cfg args;
               cfg'' = cfg'\<lparr>Args := (if length rest > 0 then rest else args)\<rparr>
           in case err of
                None \<Rightarrow> Return cfg''
              | Some e \<Rightarrow>
                  (case errorHandling fs of
                     flag_ContinueOnError \<Rightarrow> Return cfg''
                   | flag_ExitOnError \<Rightarrow> Exit (if e = ErrHelp then 0 else 2)
                   | flag_PanicOnError \<Rightarrow> Panic (FlagPanic e))))"

definition ParseConfig :: "environ \<Rightarrow> (string \<Rightarrow> uint \<times> bool) \<Rightarrow> string list \<Rightarrow> Config outcome" where
  "ParseConfig env ParseUint args =
     ParseConfigWithFlagSet env ParseUint
       \<lparr>errorHandling = flag_ExitOnError, formal = Map.empty\<rparr> args"

section \<open>GetTag\<close>

text \<open>
  \<^verbatim>\<open>GetTag\<close> reads a struct tag by reflection. \<open>ConfigTags\<close> is the table of the
  tags the source declares on the fields of \<^verbatim>\<open>Config\<close>, and \<open>GetTag\<close> is the
  function on a \<^verbatim>\<open>Config\<close> value or pointer: the empty string for a field the
  struct does not have and for a key the field's tag does not have.
\<close>

definition ConfigTags :: "(string \<times> (string \<times> string) list) list" where
  "ConfigTags =
     [(''Args'', []),
      (''Procfile'', [(''yaml'', ''procfile''), (''mapstructure'', ''procfile''),
         (''description'', ''proc file''), (''default'', ''Procfile'')]),
      (''StartRpcServer'', [(''yaml'', ''rpc-server''), (''mapstructure'', ''rpc-server''),
         (''description'', ''start an RPC server''), (''default'', ''true'')]),
      (''RpcPort'', [(''yaml'', ''port''), (''mapstructure'', ''port''),
         (''description'', ''port''), (''default'', ''8555'')]),
      (''BaseDir'', [(''yaml'', ''basedir''), (''mapstructure'', ''basedir''),
         (''description'', ''base directory''), (''default'', [])]),
      (''BasePort'', [(''yaml'', ''baseport''), (''mapstructure'', ''baseport''),
         (''description'', ''base port''), (''default'', ''5000'')]),
      (''ExitOnError'', [(''yaml'', ''exit_on_error''), (''mapstructure'', ''exit_on_error''),
         (''description'', ''exit on error''), (''default'', ''false'')]),
      (''ExitOnStop'', [(''yaml'', ''exit_on_stop''), (''mapstructure'', ''exit_on_stop''),
         (''description'', ''exit on stop''), (''default'', ''true'')]),
      (''SetPorts'', [(''yaml'', ''set_ports''), (''mapstructure'', ''set_ports''),
         (''description'', ''False to avoid setting PORT env var for each subprocess''),
         (''default'', ''true'')]),
      (''LogTime'', [(''yaml'', ''logtime''), (''mapstructure'', ''logtime''),
         (''description'', ''show timestamp in log''), (''default'', ''true'')])]"

definition GetTag :: "string \<Rightarrow> string \<Rightarrow> string" where
  "GetTag field key =
     (case map_of ConfigTags field of
        None \<Rightarrow> []
      | Some tags \<Rightarrow> (case map_of tags key of None \<Rightarrow> [] | Some v \<Rightarrow> v))"

section \<open>The supervisor's startAll\<close>

text \<open>
  Modelled from the spec: \<^verbatim>\<open>startProcs\<close>, the supervisor's \<^verbatim>\<open>startAll\<close>, is called
  by \<^verbatim>\<open>start\<close> and is not among the sources. The specification (sections 3, 4.1, 7
  and 8) says: an instance is created per entry at supervisor start, in state
  \<open>Starting\<close>; \<^verbatim>\<open>startAll\<close> spawns a child for each entry and moves its instance to
  \<open>Running\<close>; it fails fast and aborts the whole batch if a spawn fails, and the
  failure is propagated as a fatal startup error; after a failed startup no instance is
  left \<open>Running\<close>. Spawning is an operation of the operating system: the parameter
  \<open>spawn\<close> gives the handle of the new child or the error. In the model an aborted
  batch stops the instances spawned before the failure (\<open>Stopped\<close>, the state of a
  stop by the supervisor), the instance whose spawn failed is \<open>Failed\<close>, and the
  entries after it are never spawned and stay \<open>Starting\<close>. Exits of the children
  after startup are not part of \<^verbatim>\<open>startAll\<close>.
\<close>

datatype pstate = Starting | Running | Stopping | Stopped | Failed

record Instance =
  entry :: ProcInfo
  state :: pstate
  osHandle :: "nat option"





section \<open>The entries a Procfile describes\<close>

text \<open>
  The registry as the specification describes it, to compare \<^verbatim>\<open>readProcfile\<close> with.
  A line is an entry (a valid line) when it has a \<^verbatim>\<open>:\<close> separator and does not start
  with \<^verbatim>\<open>#\<close>: these are the lines the loop does not skip. Its key is the text before
  the first separator and its command the text after it, both trimmed (and the command
  rewritten on Windows). \<open>entryOf w cfg i line\<close> is the entry of the line that is the
  \<open>i\<close>-th entry of the file, counting from 0, in the words of the specification: its
  colour index is the ordinal position modulo the size of the palette, and its port is
  the base port plus \<open>100 * i\<close> when ports are assigned.
\<close>

definition isEntry :: "string \<Rightarrow> bool" where
  "isEntry line = (CHR '':'' \<in> set line \<and> hd line \<noteq> CHR ''#'')"

definition keyOf :: "string \<Rightarrow> string" where
  "keyOf line = TrimSpace (takeWhile (\<lambda>c. c \<noteq> CHR '':'') line)"

definition commandOf :: "world \<Rightarrow> string \<Rightarrow> string" where
  "commandOf w line =
     (let v = TrimSpace (tl (dropWhile (\<lambda>c. c \<noteq> CHR '':'') line))
      in if windows w then winEnv v else v)"

definition entryOf :: "world \<Rightarrow> Config \<Rightarrow> nat \<Rightarrow> string \<Rightarrow> ProcInfo" where
  "entryOf w cfg i line =
     \<lparr>name = keyOf line, cmdline = commandOf w line, cmd = None,
      port = (if SetPorts cfg then BasePort cfg + 100 * of_nat i else 0),
      setPort = SetPorts cfg, colorIndex = i mod ncolors w,
      stoppedBySupervisor = False, waitErr = None, logTime = LogTime cfg\<rparr>"

definition entriesFrom :: "world \<Rightarrow> Config \<Rightarrow> nat \<Rightarrow> string list \<Rightarrow> ProcInfo list" where
  "entriesFrom w cfg n ls = map (\<lambda>(i, line). entryOf w cfg i line) (enumerate n ls)"

definition fileLines :: "string \<Rightarrow> string list" where
  "fileLines content = Split (CHR 0x0A) content"

section \<open>Failing to load\<close>

text \<open>
  \<open>abortsWith w sp cfg g err g'\<close>: \<^verbatim>\<open>readProcfile\<close> returns the error \<open>err\<close> and leaves
  the configuration as it was and the package-level variables as \<open>g'\<close>, and \<^verbatim>\<open>start\<close>
  returns that error without a call of \<^verbatim>\<open>startProcs\<close>.
\<close>

definition abortsWith ::
  "world \<Rightarrow> (Config \<Rightarrow> globals \<Rightarrow> error option \<times> 'r) \<Rightarrow> Config \<Rightarrow> globals \<Rightarrow> error \<Rightarrow> globals \<Rightarrow> bool" where
  "abortsWith w sp cfg g err g' =
     (readProcfile w cfg g = Return (Some err, cfg, g') \<and>
      start w sp cfg g = Return (Some err, cfg, g', None))"

section \<open>Example inputs\<close>

text \<open>
  Concrete inputs at which the theorems below are instantiated: a Procfile with two
  entries, a comment, an empty line and a line without separator, read with a palette
  of six colours; the configuration that \<^verbatim>\<open>ParseConfig\<close> yields for the arguments
  \<^verbatim>\<open>start\<close> with base port 5000; and the registry that \<^verbatim>\<open>readProcfile\<close> builds
  from them. \<open>loaded\<close> is the registry after a load without error.
\<close>

definition loaded :: "(error option \<times> Config \<times> globals) outcome \<Rightarrow> ProcInfo list" where
  "loaded r = (case r of Return (None, cfg, g) \<Rightarrow> procs g | _ \<Rightarrow> [])"

definition exampleContent :: string where
  "exampleContent =
     ''web: ./server -p $PORT'' @ [CHR 0x0A] @ ''# note: skipped'' @ [CHR 0x0A] @ [CHR 0x0A] @
     ''no separator'' @ [CHR 0x0A] @ ''worker : run'' @ [CHR 0x0A]"

definition exampleWorld :: world where
  "exampleWorld = \<lparr>fsys = (\<lambda>path. Contents exampleContent), ncolors = 6, windows = False\<rparr>"

definition exampleConfig :: Config where
  "exampleConfig =
     \<lparr>Args = [''start''], Procfile = ''Procfile'', StartRpcServer = True, RpcPort = 8555,
      BaseDir = [], BasePort = 5000, ExitOnError = False, ExitOnStop = True,
      SetPorts = True, LogTime = True\<rparr>"

definition noGlobals :: globals where
  "noGlobals = \<lparr>procs = [], maxProcNameLength = 0\<rparr>"

definition exampleRegistry :: globals where
  "exampleRegistry =
     \<lparr>procs =
        [\<lparr>name = ''web'', cmdline = ''./server -p $PORT'', cmd = None, port = 5000,
          setPort = True, colorIndex = 0, stoppedBySupervisor = False, waitErr = None,
          logTime = True\<rparr>,
         \<lparr>name = ''worker'', cmdline = ''run'', cmd = None, port = 5100,
          setPort = True, colorIndex = 1, stoppedBySupervisor = False, waitErr = None,
          logTime = True\<rparr>],
      maxProcNameLength = 6\<rparr>"

text \<open>A Procfile of four entries read with a palette of three colours.\<close>

definition paletteWorld :: world where
  "paletteWorld =
     \<lparr>fsys = (\<lambda>path. Contents (''a: 1'' @ [CHR 0x0A] @ ''b: 2'' @ [CHR 0x0A] @ ''c: 3'' @
                 [CHR 0x0A] @ ''d: 4'')),
      ncolors = 3, windows = False\<rparr>"

text \<open>A Procfile of two entries, and a base port 100 below the largest \<^verbatim>\<open>uint\<close> plus one.\<close>

definition wrapWorld :: world where
  "wrapWorld =
     \<lparr>fsys = (\<lambda>path. Contents (''a: x'' @ [CHR 0x0A] @ ''b: y'')), ncolors = 6,
      windows = False\<rparr>"

definition wrapConfig :: Config where
  "wrapConfig = exampleConfig\<lparr>BasePort := 18446744073709551516\<rparr>"

definition paletteRegistry :: globals where
  "paletteRegistry =
     \<lparr>procs =
        [\<lparr>name = ''a'', cmdline = ''1'', cmd = None, port = 5000, setPort = True,
          colorIndex = 0, stoppedBySupervisor = False, waitErr = None, logTime = True\<rparr>,
         \<lparr>name = ''b'', cmdline = ''2'', cmd = None, port = 5100, setPort = True,
          colorIndex = 1, stoppedBySupervisor = False, waitErr = None, logTime = True\<rparr>,
         \<lparr>name = ''c'', cmdline = ''3'', cmd = None, port = 5200, setPort = True,
          colorIndex = 2, stoppedBySupervisor = False, waitErr = None, logTime = True\<rparr>,
         \<lparr>name = ''d'', cmdline = ''4'', cmd = None, port = 5300, setPort = True,
          colorIndex = 0, stoppedBySupervisor = False, waitErr = None, logTime = True\<rparr>],
      maxProcNameLength = 1\<rparr>"

text \<open>
  A world without Procfile and one whose Procfile holds a comment only; a supervisor that
  does nothing, and a system around a world in which every other command succeeds.
\<close>

definition missingWorld :: world where
  "missingWorld = \<lparr>fsys = (\<lambda>path. NotExist), ncolors = 6, windows = False\<rparr>"

definition commentWorld :: world where
  "commentWorld = \<lparr>fsys = (\<lambda>path. Contents ''# web: run''), ncolors = 6, windows = False\<rparr>"

definition noSupervisor :: "Config \<Rightarrow> globals \<Rightarrow> error option \<times> unit" where
  "noSupervisor cfg g = (None, ())"

definition exampleSystem :: "world \<Rightarrow> unit system" where
  "exampleSystem w =
     \<lparr>sys_world = w, chdir = (\<lambda>dir. None), osArgs = [''goreman'', ''start''],
      runCommand = (\<lambda>command args p. None), exportCommand = (\<lambda>cfg format path. None),
      startProcs = noSupervisor\<rparr>"

text \<open>The example configuration with process names after the command.\<close>

definition namedConfig :: "string list \<Rightarrow> Config" where
  "namedConfig names = exampleConfig\<lparr>Args := ''start'' # names\<rparr>"



text \<open>
  An environment that sets both variables; command-line arguments without a base port;
  and a number parser that accepts nothing (no argument of the example is a number).
\<close>

definition exampleEnv :: environ where
  "exampleEnv = [''GOREMAN_RPC_PORT'' \<mapsto> ''9000'', ''GOREMAN_RPC_ADDR'' \<mapsto> ''127.0.0.1'']"

definition exampleArgs :: "string list" where
  "exampleArgs = [''-f'', ''Procfile.dev'', ''start'', ''web'']"

definition noUint :: "string \<Rightarrow> uint \<times> bool" where
  "noUint s = (0, False)"

definition parsedConfig :: "uint \<Rightarrow> Config" where
  "parsedConfig p =
     \<lparr>Args = [''start'', ''web''], Procfile = ''Procfile.dev'', StartRpcServer = True,
      RpcPort = p, BaseDir = [], BasePort = p, ExitOnError = False, ExitOnStop = True,
      SetPorts = True, LogTime = True\<rparr>"

section \<open>Properties of the loader\<close>

text \<open>One step of the loop of \<^verbatim>\<open>readProcfile\<close>, by the kind of line.\<close>

lemma SplitN2_none: "CHR '':'' \<notin> set line \<Longrightarrow> SplitN2 CHR '':'' line = [line]"
  by (simp add: SplitN2_def)

lemma SplitN2_some:
  "CHR '':'' \<in> set line \<Longrightarrow>
   SplitN2 CHR '':'' line =
     [takeWhile (\<lambda>c. c \<noteq> CHR '':'') line, tl (dropWhile (\<lambda>c. c \<noteq> CHR '':'') line)]"
  by (simp add: SplitN2_def)

lemma takeWhile_key_Nil:
  "line \<noteq> [] \<Longrightarrow> (takeWhile (\<lambda>c. c \<noteq> CHR '':'') line = []) = (hd line = CHR '':'')"
  by (cases line) auto

lemma hd_takeWhile_key:
  "hd line \<noteq> CHR '':'' \<Longrightarrow> line \<noteq> [] \<Longrightarrow> hd (takeWhile (\<lambda>c. c \<noteq> CHR '':'') line) = hd line"
  by (cases line) auto

lemma parseLines_no_separator:
  "CHR '':'' \<notin> set line \<Longrightarrow> parseLines w (line # rest) s = parseLines w rest s"
  by (cases s) (simp add: SplitN2_none)

lemma parseLines_empty_key:
  "CHR '':'' \<in> set line \<Longrightarrow> hd line = CHR '':'' \<Longrightarrow>
   parseLines w (line # rest) s = Panic IndexOutOfRange"
  by (cases s; cases line) (auto simp: SplitN2_some)

lemma parseLines_comment:
  "CHR '':'' \<in> set line \<Longrightarrow> hd line = CHR ''#'' \<Longrightarrow>
   parseLines w (line # rest) s = parseLines w rest s"
  by (cases s; cases line) (auto simp: SplitN2_some)

lemma parseLines_entry:
  assumes "CHR '':'' \<in> set line" "hd line \<noteq> CHR '':''" "hd line \<noteq> CHR ''#''"
  shows "parseLines w (line # rest) (cfg, ps, maxLen, index) =
     (if ncolors w = 0 then Panic DivideByZero
      else parseLines w rest
        (cfg\<lparr>BasePort := (if SetPorts cfg then BasePort cfg + 100 else BasePort cfg)\<rparr>,
         ps @ [\<lparr>name = keyOf line, cmdline = commandOf w line, cmd = None,
                port = (if SetPorts cfg then BasePort cfg else 0), setPort = SetPorts cfg,
                colorIndex = index, stoppedBySupervisor = False, waitErr = None,
                logTime = LogTime cfg\<rparr>],
         max maxLen (length (keyOf line)), Suc index mod ncolors w))"
proof -
  from assms(1) have ne: "line \<noteq> []" by auto
  with assms(2) have k: "takeWhile (\<lambda>c. c \<noteq> CHR '':'') line \<noteq> []"
    by (simp add: takeWhile_key_Nil)
  from assms(2,3) ne have h: "hd (takeWhile (\<lambda>c. c \<noteq> CHR '':'') line) \<noteq> CHR ''#''"
    by (simp add: hd_takeWhile_key)
  show ?thesis
    using k h by (simp add: SplitN2_some [OF assms(1)] keyOf_def commandOf_def Let_def max_def)
qed

lemma entriesFrom_Nil: "entriesFrom w cfg n [] = []"
  by (simp add: entriesFrom_def)

lemma entriesFrom_Cons:
  "entriesFrom w cfg n (l # ls) = entryOf w cfg n l # entriesFrom w cfg (Suc n) ls"
  by (simp add: entriesFrom_def)

lemma parseLines_entries:
  assumes "parseLines w ls (cfg, ps, maxLen, c mod ncolors w) = Return (cfg', ps', maxLen', index')"
    and "SetPorts cfg \<Longrightarrow> BasePort cfg = BasePort cfg0 + 100 * of_nat c"
    and "SetPorts cfg = SetPorts cfg0" and "LogTime cfg = LogTime cfg0"
  shows "ps' = ps @ entriesFrom w cfg0 c (filter isEntry ls)"
  using assms
proof (induction ls arbitrary: cfg ps maxLen c)
  case Nil
  then show ?case by (simp add: entriesFrom_Nil)
next
  case (Cons line rest)
  show ?case
  proof (cases "CHR '':'' \<in> set line")
    case False
    then have "\<not> isEntry line" by (simp add: isEntry_def)
    with False Cons show ?thesis
      by (simp add: parseLines_no_separator del: parseLines.simps)
  next
    case sep: True
    show ?thesis
    proof (cases "hd line = CHR ''#''")
      case True
      then have "\<not> isEntry line" by (simp add: isEntry_def)
      with True sep Cons show ?thesis
        by (simp add: parseLines_comment del: parseLines.simps)
    next
      case nocomment: False
      show ?thesis
      proof (cases "hd line = CHR '':''")
        case True
        with sep Cons.prems(1) show ?thesis
          by (simp add: parseLines_empty_key del: parseLines.simps)
      next
        case False
        let ?cfg = "cfg\<lparr>BasePort := (if SetPorts cfg then BasePort cfg + 100 else BasePort cfg)\<rparr>"
        let ?p = "\<lparr>name = keyOf line, cmdline = commandOf w line, cmd = None,
                port = (if SetPorts cfg then BasePort cfg else 0), setPort = SetPorts cfg,
                colorIndex = c mod ncolors w, stoppedBySupervisor = False, waitErr = None,
                logTime = LogTime cfg\<rparr>"
        from Cons.prems(1) sep nocomment False
        have n: "ncolors w \<noteq> 0"
          and run: "parseLines w rest (?cfg, ps @ [?p], max maxLen (length (keyOf line)),
                      Suc c mod ncolors w) = Return (cfg', ps', maxLen', index')"
          by (auto simp: parseLines_entry mod_Suc_eq simp del: parseLines.simps split: if_splits)
        have p: "?p = entryOf w cfg0 c line"
          using Cons.prems(2-4) by (simp add: entryOf_def)
        have "ps' = (ps @ [?p]) @ entriesFrom w cfg0 (Suc c) (filter isEntry rest)"
        proof (rule Cons.IH [OF run])
          show "BasePort ?cfg = BasePort cfg0 + 100 * of_nat (Suc c)" if "SetPorts ?cfg"
            using that Cons.prems(2) by (simp add: algebra_simps)
          show "SetPorts ?cfg = SetPorts cfg0" using Cons.prems(3) by simp
          show "LogTime ?cfg = LogTime cfg0" using Cons.prems(4) by simp
        qed
        moreover from sep nocomment have "isEntry line" by (simp add: isEntry_def)
        ultimately show ?thesis
          using p by (simp add: entriesFrom_Cons)
      qed
    qed
  qed
qed

lemma parseLines_config:
  "parseLines w ls (cfg, ps, maxLen, index) = Return (cfg', ps', maxLen', index') \<Longrightarrow>
   cfg' = cfg\<lparr>BasePort := BasePort cfg'\<rparr>"
proof (induction ls arbitrary: cfg ps maxLen index)
  case Nil
  then show ?case by simp
next
  case (Cons line rest)
  consider (nosep) "CHR '':'' \<notin> set line"
    | (comment) "CHR '':'' \<in> set line" "hd line = CHR ''#''"
    | (empty) "CHR '':'' \<in> set line" "hd line = CHR '':''"
    | (entry) "CHR '':'' \<in> set line" "hd line \<noteq> CHR '':''" "hd line \<noteq> CHR ''#''"
    by blast
  then show ?case
  proof cases
    case nosep
    with Cons show ?thesis by (simp add: parseLines_no_separator del: parseLines.simps)
  next
    case comment
    with Cons show ?thesis by (simp add: parseLines_comment del: parseLines.simps)
  next
    case empty
    with Cons.prems show ?thesis by (simp add: parseLines_empty_key del: parseLines.simps)
  next
    case entry
    let ?cfg = "cfg\<lparr>BasePort := (if SetPorts cfg then BasePort cfg + 100 else BasePort cfg)\<rparr>"
    from Cons.prems entry obtain ps1 m1 i1 where
      "parseLines w rest (?cfg, ps1, m1, i1) = Return (cfg', ps', maxLen', index')"
      by (auto simp: parseLines_entry simp del: parseLines.simps split: if_splits)
    then have "cfg' = ?cfg\<lparr>BasePort := BasePort cfg'\<rparr>" by (rule Cons.IH)
    then show ?thesis by (metis Config.update_convs(6) Config.surjective Config.select_convs)
  qed
qed

lemma readProcfile_loaded:
  assumes "readProcfile w cfg g = Return (None, cfg', g')"
  obtains content where "fsys w (Procfile cfg) = Contents content"
    and "procs g' = entriesFrom w cfg 0 (filter isEntry (fileLines content))"
    and "procs g' \<noteq> []" and "cfg' = cfg\<lparr>BasePort := BasePort cfg'\<rparr>"
proof (cases "fsys w (Procfile cfg)")
  case NotExist
  with assms show ?thesis by (simp add: readProcfile_def)
next
  case (StatFails e)
  with assms show ?thesis by (simp add: readProcfile_def)
next
  case (ReadFails e)
  with assms show ?thesis by (simp add: readProcfile_def)
next
  case (Contents content)
  with assms obtain ps m i where
    run: "parseLines w (fileLines content) (cfg, [], maxProcNameLength g, 0) = Return (cfg', ps, m, i)"
    and g': "g' = \<lparr>procs = ps, maxProcNameLength = m\<rparr>" and ne: "ps \<noteq> []"
    by (auto simp: readProcfile_def fileLines_def split: outcome.splits if_splits)
  from run have "parseLines w (fileLines content) (cfg, [], maxProcNameLength g, 0 mod ncolors w)
     = Return (cfg', ps, m, i)" by simp
  then have "ps = [] @ entriesFrom w cfg 0 (filter isEntry (fileLines content))"
    by (rule parseLines_entries) simp_all
  moreover from run have "cfg' = cfg\<lparr>BasePort := BasePort cfg'\<rparr>" by (rule parseLines_config)
  ultimately show ?thesis using Contents g' ne that by simp
qed

lemma entriesFrom_length: "length (entriesFrom w cfg n ls) = length ls"
  by (simp add: entriesFrom_def)

lemma entriesFrom_nth:
  "i < length ls \<Longrightarrow> entriesFrom w cfg n ls ! i = entryOf w cfg (n + i) (ls ! i)"
  by (simp add: entriesFrom_def nth_enumerate_eq)

lemma entriesFrom_names: "map name (entriesFrom w cfg n ls) = map keyOf ls"
  by (induction ls arbitrary: n) (simp_all add: entriesFrom_Nil entriesFrom_Cons entryOf_def)

lemma entriesFrom_cmdlines: "map cmdline (entriesFrom w cfg n ls) = map (commandOf w) ls"
  by (induction ls arbitrary: n) (simp_all add: entriesFrom_Nil entriesFrom_Cons entryOf_def)

lemma port_no_wrap:
  fixes b :: uint
  assumes "unat b + 100 * i < 2 ^ 64"
  shows "unat (b + 100 * of_nat i) = unat b + 100 * i"
proof -
  define k where "k = 100 * i"
  from assms have k: "k < 2 ^ 64" and bk: "unat b + k < 2 ^ 64" by (simp_all add: k_def)
  have "unat (of_nat k :: uint) = k mod 2 ^ LENGTH(64)" by (rule unat_of_nat)
  also from k have "\<dots> = k" by simp
  finally have u: "unat (of_nat k :: uint) = k" .
  with bk have "unat b + unat (of_nat k :: uint) < 2 ^ LENGTH(64)" by simp
  then have "unat (b + of_nat k) = unat b + unat (of_nat k :: uint)"
    by (simp only: unat_add_lem)
  with u have "unat (b + of_nat k) = unat b + k" by simp
  then show ?thesis by (simp add: k_def)
qed

lemma find_by_distinct_key:
  "distinct (map f xs) \<Longrightarrow> p \<in> set xs \<Longrightarrow> find (\<lambda>q. f q = f p) xs = Some p"
proof (induction xs)
  case Nil
  then show ?case by simp
next
  case (Cons q qs)
  show ?case
  proof (cases "q = p")
    case True
    then show ?thesis by simp
  next
    case False
    with Cons.prems have "p \<in> set qs" by simp
    then have "f p \<in> f ` set qs" by simp
    with Cons.prems(1) have "f q \<noteq> f p" by auto
    with Cons \<open>p \<in> set qs\<close> show ?thesis by simp
  qed
qed

text \<open>The example inputs, evaluated.\<close>

lemma example_load:
  "readProcfile exampleWorld exampleConfig noGlobals =
     Return (None, exampleConfig\<lparr>BasePort := 5200\<rparr>, exampleRegistry)"
  by code_simp

lemma example_file: "fsys exampleWorld (Procfile exampleConfig) = Contents exampleContent"
  by (simp add: exampleWorld_def)

lemma example_keys: "map keyOf (filter isEntry (fileLines exampleContent)) = [''web'', ''worker'']"
  by code_simp

section \<open>Properties of start\<close>

lemma parseLines_no_entries: "filter isEntry ls = [] \<Longrightarrow> parseLines w ls s = Return s"
proof (induction ls)
  case Nil
  then show ?case by simp
next
  case (Cons line rest)
  then have n: "\<not> isEntry line" and r: "filter isEntry rest = []"
    by (auto split: if_splits)
  have "parseLines w (line # rest) s = parseLines w rest s"
  proof (cases "CHR '':'' \<in> set line")
    case True
    with n have "hd line = CHR ''#''" by (simp add: isEntry_def)
    with True show ?thesis by (rule parseLines_comment)
  next
    case False
    then show ?thesis by (rule parseLines_no_separator)
  qed
  with r Cons.IH show ?case by simp
qed

lemma readProcfile_no_entries:
  assumes "fsys w (Procfile cfg) = Contents content"
    and "filter isEntry (fileLines content) = []"
  shows "readProcfile w cfg g =
           Return (Some (ErrorsNew ''no valid entry''), cfg, g\<lparr>procs := []\<rparr>)"
  using assms parseLines_no_entries [of "fileLines content" w "(cfg, [], maxProcNameLength g, 0)"]
  by (simp add: readProcfile_def fileLines_def)

lemma start_load_error:
  "readProcfile w cfg g = Return (Some err, cfg', g') \<Longrightarrow>
   start w sp cfg g = Return (Some err, cfg', g', None)"
  by (simp add: start_def)

lemma MainWithConfig_start_error:
  assumes "start (sys_world sys) (startProcs sys) cfg g = Return (Some err, r)"
    and "Args cfg \<noteq> []" and "hd (Args cfg) = ''start''"
  shows "MainWithConfig sys (Some cfg) g = Exit 1"
  using assms by (cases "Args cfg") (simp_all add: MainWithConfig_def error_of_def Let_def)

lemma findProc_Some: "findProc g v = Some p \<Longrightarrow> name p = v \<and> p \<in> set (procs g)"
  by (auto simp: findProc_def find_Some_iff)

lemma selectProcs_found:
  "\<forall>v \<in> set vs. findProc g v \<noteq> None \<Longrightarrow>
   \<exists>sel m'. selectProcs g vs (tmp, m) = Inr (tmp @ sel, m') \<and> map name sel = vs \<and>
             set sel \<subseteq> set (procs g)"
proof (induction vs arbitrary: tmp m)
  case Nil
  then show ?case by simp
next
  case (Cons v vs)
  then obtain p where p: "findProc g v = Some p" by auto
  let ?m = "if length v > m then length v else m"
  from Cons.prems have "\<forall>v \<in> set vs. findProc g v \<noteq> None" by simp
  from Cons.IH [OF this, of "tmp @ [p]" ?m] obtain sel m' where
    s: "selectProcs g vs (tmp @ [p], ?m) = Inr ((tmp @ [p]) @ sel, m')"
    and n: "map name sel = vs" and sub: "set sel \<subseteq> set (procs g)" by blast
  from p s have "selectProcs g (v # vs) (tmp, m) = Inr (tmp @ (p # sel), m')" by simp
  moreover from n p have "map name (p # sel) = v # vs" by (simp add: findProc_Some)
  moreover from sub p have "set (p # sel) \<subseteq> set (procs g)" by (simp add: findProc_Some)
  ultimately show ?case by (intro exI [of _ "p # sel"] exI [of _ m']) simp
qed

lemma selectProcs_unknown:
  "\<exists>v \<in> set vs. findProc g v = None \<Longrightarrow>
   \<exists>v m'. selectProcs g vs (tmp, m) = Inl (v, m') \<and> v \<in> set vs \<and> findProc g v = None"
proof (induction vs arbitrary: tmp m)
  case Nil
  then show ?case by simp
next
  case (Cons v vs)
  show ?case
  proof (cases "findProc g v")
    case None
    then show ?thesis by auto
  next
    case (Some p)
    with Cons.prems have "\<exists>v \<in> set vs. findProc g v = None" by auto
    from Cons.IH [OF this, of "tmp @ [p]" "if length v > m then length v else m"] Some
    show ?thesis by auto
  qed
qed

section \<open>Properties of the model of startAll\<close>


section \<open>Properties of the flag parser\<close>

lemma setFlag_BasePort:
  "nm \<noteq> ''b'' \<Longrightarrow> BasePort (fst (setFlag ParseUint nm v cfg)) = BasePort cfg"
  by (simp add: setFlag_def setBool_def split: option.splits)

lemma parseOne_BasePort:
  assumes "\<forall>a \<in> set args. \<forall>v. argShape a \<noteq> Flag ''b'' v"
  shows "(case parseOne ParseUint fs cfg args of
            Seen cfg' rest \<Rightarrow> BasePort cfg' = BasePort cfg \<and> set rest \<subseteq> set args
          | Over rest \<Rightarrow> True
          | Bad err cfg' rest \<Rightarrow> BasePort cfg' = BasePort cfg)"
proof (cases args)
  case Nil
  then show ?thesis by (simp add: parseOne_def)
next
  case (Cons s rest)
  show ?thesis
  proof (cases "argShape s")
    case (Flag nm hasValue)
    with assms Cons have nm: "nm \<noteq> ''b''" by auto
    have bp: "BasePort (fst (setFlag ParseUint nm v cfg)) = BasePort cfg" for v
      using nm by (rule setFlag_BasePort)
    have sub: "set rest \<subseteq> insert s (set rest)" by auto
    show ?thesis
    proof (cases "nm \<in> set configFlags")
      case own: True
      show ?thesis
      proof (cases hasValue)
        case (Some v)
        with Cons Flag own bp sub show ?thesis
          by (simp add: parseOne_def split_beta)
      next
        case None
        show ?thesis
        proof (cases rest)
          case Nil
          with Cons Flag own None bp show ?thesis
            by (simp add: parseOne_def split_beta)
        next
          case (Cons v rest')
          have "set rest' \<subseteq> insert s (insert v (set rest'))" by auto
          with \<open>args = s # rest\<close> Cons Flag own None bp show ?thesis
            by (simp add: parseOne_def split_beta)
        qed
      qed
    next
      case ext: False
      show ?thesis
      proof (cases "formal fs nm")
        case None
        with Cons Flag ext show ?thesis by (simp add: parseOne_def)
      next
        case known: (Some fl)
        show ?thesis
        proof (cases hasValue)
          case (Some v)
          with Cons Flag ext known sub show ?thesis
            by (simp add: parseOne_def)
        next
          case None
          show ?thesis
          proof (cases rest)
            case Nil
            with Cons Flag ext known None show ?thesis
              by (simp add: parseOne_def)
          next
            case (Cons v rest')
            have "set rest' \<subseteq> insert s (insert v (set rest'))" by auto
            with \<open>args = s # rest\<close> Cons Flag ext known None show ?thesis
              by (simp add: parseOne_def)
          qed
        qed
      qed
    qed
  qed (simp_all add: parseOne_def Cons)
qed

lemma Parse_BasePort:
  "\<forall>a \<in> set args. \<forall>v. argShape a \<noteq> Flag ''b'' v \<Longrightarrow>
   BasePort (fst (Parse ParseUint fs cfg args)) = BasePort cfg"
proof (induction ParseUint fs cfg args rule: Parse.induct)
  case (1 ParseUint fs cfg args)
  note step = parseOne_BasePort [OF "1.prems", where ParseUint = ParseUint and fs = fs and cfg = cfg]
  show ?case
  proof (cases "parseOne ParseUint fs cfg args")
    case (Seen cfg' rest)
    with step have bp: "BasePort cfg' = BasePort cfg" and sub: "set rest \<subseteq> set args" by simp_all
    from sub "1.prems" have "\<forall>a \<in> set rest. \<forall>v. argShape a \<noteq> Flag ''b'' v" by blast
    with "1.IH" [OF Seen] have "BasePort (fst (Parse ParseUint fs cfg' rest)) = BasePort cfg'"
      by simp
    with Seen bp show ?thesis by (subst Parse.simps) simp
  next
    case (Over rest)
    then show ?thesis by (subst Parse.simps) simp
  next
    case (Bad err cfg' rest)
    with step show ?thesis by (subst Parse.simps) simp
  qed
qed

section \<open>The claims\<close>

subsection \<open>C1: all-or-nothing startup\<close>



subsection \<open>C2: a spec source that cannot be loaded\<close>

text \<open>
  Claim C2. If the Procfile is missing, unreadable or yields no entry, loading fails
  with an error and \<^verbatim>\<open>start\<close> aborts before any process is started:
  \<^verbatim>\<open>readProcfile\<close> returns the error, \<^verbatim>\<open>start\<close> returns it without calling
  \<^verbatim>\<open>startProcs\<close>, and \<^verbatim>\<open>MainWithConfig\<close> ends the program with exit status 1. In
  particular \<^verbatim>\<open>readProcfile\<close> never returns an empty registry without an error.
\<close>

theorem start_aborts_on_load_error:
  "(fsys w (Procfile cfg) = NotExist \<longrightarrow>
      abortsWith w sp cfg g (ErrorsNew (''procfile does not exist:'' @ Procfile cfg)) g) \<and>
   (fsys w (Procfile cfg) = StatFails e \<or> fsys w (Procfile cfg) = ReadFails e \<longrightarrow>
      abortsWith w sp cfg g e g) \<and>
   (fsys w (Procfile cfg) = Contents content \<and> filter isEntry (fileLines content) = [] \<longrightarrow>
      abortsWith w sp cfg g (ErrorsNew ''no valid entry'') (g\<lparr>procs := []\<rparr>)) \<and>
   (readProcfile w cfg g = Return (None, cfg', g') \<longrightarrow> procs g' \<noteq> []) \<and>
   (readProcfile (sys_world sys) cfg g = Return (Some err, cfg', g') \<and>
    Args cfg \<noteq> [] \<and> hd (Args cfg) = ''start'' \<longrightarrow>
      MainWithConfig sys (Some cfg) g = Exit 1)"
proof (intro conjI impI)
  assume "fsys w (Procfile cfg) = NotExist"
  then have "readProcfile w cfg g =
      Return (Some (ErrorsNew (''procfile does not exist:'' @ Procfile cfg)), cfg, g)"
    by (simp add: readProcfile_def)
  then show "abortsWith w sp cfg g (ErrorsNew (''procfile does not exist:'' @ Procfile cfg)) g"
    by (simp add: abortsWith_def start_load_error)
next
  assume "fsys w (Procfile cfg) = StatFails e \<or> fsys w (Procfile cfg) = ReadFails e"
  then have "readProcfile w cfg g = Return (Some e, cfg, g)"
    by (auto simp: readProcfile_def)
  then show "abortsWith w sp cfg g e g"
    by (simp add: abortsWith_def start_load_error)
next
  assume "fsys w (Procfile cfg) = Contents content \<and> filter isEntry (fileLines content) = []"
  then have "readProcfile w cfg g =
      Return (Some (ErrorsNew ''no valid entry''), cfg, g\<lparr>procs := []\<rparr>)"
    by (simp add: readProcfile_no_entries)
  then show "abortsWith w sp cfg g (ErrorsNew ''no valid entry'') (g\<lparr>procs := []\<rparr>)"
    by (simp add: abortsWith_def start_load_error)
next
  assume "readProcfile w cfg g = Return (None, cfg', g')"
  then show "procs g' \<noteq> []" by (rule readProcfile_loaded)
next
  assume a: "readProcfile (sys_world sys) cfg g = Return (Some err, cfg', g') \<and>
    Args cfg \<noteq> [] \<and> hd (Args cfg) = ''start''"
  then have "start (sys_world sys) (startProcs sys) cfg g = Return (Some err, cfg', g', None)"
    by (simp add: start_load_error)
  with a show "MainWithConfig sys (Some cfg) g = Exit 1"
    by (simp add: MainWithConfig_start_error)
qed

theorem start_aborts_on_load_error_witness:
  "fsys missingWorld (Procfile exampleConfig) = NotExist \<and>
   start missingWorld noSupervisor exampleConfig noGlobals =
     Return (Some (ErrorsNew ''procfile does not exist:Procfile''), exampleConfig, noGlobals, None) \<and>
   fsys commentWorld (Procfile exampleConfig) = Contents ''# web: run'' \<and>
   filter isEntry (fileLines ''# web: run'') = [] \<and>
   start commentWorld noSupervisor exampleConfig noGlobals =
     Return (Some (ErrorsNew ''no valid entry''), exampleConfig, noGlobals, None) \<and>
   Args exampleConfig \<noteq> [] \<and> hd (Args exampleConfig) = ''start'' \<and>
   MainWithConfig (exampleSystem missingWorld) (Some exampleConfig) noGlobals = Exit 1 \<and>
   readProcfile exampleWorld exampleConfig noGlobals =
     Return (None, exampleConfig\<lparr>BasePort := 5200\<rparr>, exampleRegistry) \<and>
   procs exampleRegistry \<noteq> []"
proof -
  have m: "fsys missingWorld (Procfile exampleConfig) = NotExist"
    by (simp add: missingWorld_def)
  have c: "fsys commentWorld (Procfile exampleConfig) = Contents ''# web: run''"
    by (simp add: commentWorld_def)
  have n: "filter isEntry (fileLines ''# web: run'') = []" by code_simp
  have a: "Args exampleConfig \<noteq> [] \<and> hd (Args exampleConfig) = ''start''"
    by (simp add: exampleConfig_def)
  have p: "Procfile exampleConfig = ''Procfile''" by (simp add: exampleConfig_def)
  have g: "noGlobals\<lparr>procs := []\<rparr> = noGlobals" by (simp add: noGlobals_def)
  have w: "sys_world (exampleSystem missingWorld) = missingWorld" by (simp add: exampleSystem_def)
  note t1 = start_aborts_on_load_error
    [of missingWorld exampleConfig noSupervisor noGlobals _ _ _ _ "exampleSystem missingWorld"]
  note t2 = start_aborts_on_load_error
    [of commentWorld exampleConfig noSupervisor noGlobals _ "''# web: run''"]
  note t3 = start_aborts_on_load_error
    [of exampleWorld exampleConfig _ noGlobals _ _ "exampleConfig\<lparr>BasePort := 5200\<rparr>" exampleRegistry]
  from t1 m have 1: "abortsWith missingWorld noSupervisor exampleConfig noGlobals
      (ErrorsNew (''procfile does not exist:'' @ Procfile exampleConfig)) noGlobals" by blast
  from t2 c n have 2: "abortsWith commentWorld noSupervisor exampleConfig noGlobals
      (ErrorsNew ''no valid entry'') (noGlobals\<lparr>procs := []\<rparr>)" by blast
  from t3 example_load have 3: "procs exampleRegistry \<noteq> []" by blast
  from 1 have r: "readProcfile (sys_world (exampleSystem missingWorld)) exampleConfig noGlobals =
      Return (Some (ErrorsNew (''procfile does not exist:'' @ Procfile exampleConfig)), exampleConfig, noGlobals)"
    by (simp add: abortsWith_def w)
  from t1 r a have 4: "MainWithConfig (exampleSystem missingWorld) (Some exampleConfig) noGlobals = Exit 1"
    by blast
  from 1 2 3 4 m c n a example_load show ?thesis
    by (simp add: abortsWith_def p g)
qed

subsection \<open>C3: the registry follows the order of the file\<close>

text \<open>
  Claim C3. After a successful \<^verbatim>\<open>readProcfile\<close> the registry holds exactly one
  instance per valid line of the Procfile, in the order of the lines: the names of the
  registry are the keys of the entry lines of the file, in file order, and the command
  lines are their commands.
\<close>

theorem readProcfile_file_order:
  assumes "readProcfile w cfg g = Return (None, cfg', g')"
    and "fsys w (Procfile cfg) = Contents content"
  shows "map name (procs g') = map keyOf (filter isEntry (fileLines content)) \<and>
         map cmdline (procs g') = map (commandOf w) (filter isEntry (fileLines content))"
proof -
  from assms(1) obtain c where "fsys w (Procfile cfg) = Contents c"
    and "procs g' = entriesFrom w cfg 0 (filter isEntry (fileLines c))"
    by (rule readProcfile_loaded)
  with assms(2) have "procs g' = entriesFrom w cfg 0 (filter isEntry (fileLines content))"
    by simp
  then show ?thesis by (simp add: entriesFrom_names entriesFrom_cmdlines)
qed

theorem readProcfile_file_order_witness:
  "readProcfile exampleWorld exampleConfig noGlobals =
     Return (None, exampleConfig\<lparr>BasePort := 5200\<rparr>, exampleRegistry) \<and>
   fsys exampleWorld (Procfile exampleConfig) = Contents exampleContent \<and>
   map name (procs exampleRegistry) = map keyOf (filter isEntry (fileLines exampleContent)) \<and>
   map name (procs exampleRegistry) = [''web'', ''worker'']"
proof -
  have "map name (procs exampleRegistry) = [''web'', ''worker'']"
    by (simp add: exampleRegistry_def)
  with example_load example_file readProcfile_file_order [OF example_load example_file]
  show ?thesis by blast
qed

subsection \<open>C4: start with process names\<close>

text \<open>
  Claim C4. When \<^verbatim>\<open>start\<close> is given process names (\<^verbatim>\<open>cfg.Args\<close> has more than one
  element) and the Procfile loads, then a name that is not in the loaded registry makes
  \<^verbatim>\<open>start\<close> return the error "unknown proc" for such a name without calling
  \<^verbatim>\<open>startProcs\<close>, and \<^verbatim>\<open>MainWithConfig\<close> ends the program with exit status 1; when
  all names are in the registry, \<^verbatim>\<open>startProcs\<close> is called with a registry whose
  names are exactly the given names, each entry taken from the loaded registry.
\<close>

theorem start_selects_names:
  assumes "readProcfile w cfg g = Return (None, cfg', g')" and "length (Args cfg) > 1"
  shows "((\<exists>v \<in> set (tl (Args cfg)). findProc g' v = None) \<longrightarrow>
            (\<exists>v m. v \<in> set (tl (Args cfg)) \<and> findProc g' v = None \<and>
                   start w sp cfg g =
                     Return (Some (ErrorsNew (''unknown proc: '' @ v)), cfg',
                             g'\<lparr>maxProcNameLength := m\<rparr>, None)) \<and>
            (sys_world sys = w \<and> hd (Args cfg) = ''start'' \<longrightarrow>
               MainWithConfig sys (Some cfg) g = Exit 1)) \<and>
         ((\<forall>v \<in> set (tl (Args cfg)). findProc g' v \<noteq> None) \<longrightarrow>
            (\<exists>g''. start w sp cfg g =
                     Return (fst (sp cfg' g''), cfg', g'', Some (snd (sp cfg' g''))) \<and>
                   map name (procs g'') = tl (Args cfg) \<and>
                   set (procs g'') \<subseteq> set (procs g')))"
proof -
  from assms(1) have "cfg' = cfg\<lparr>BasePort := BasePort cfg'\<rparr>" by (rule readProcfile_loaded)
  then have "Args cfg' = Args cfg"
    by (metis Config.select_convs(1) Config.surjective Config.update_convs(6))
  with assms(2) have args: "length (Args cfg') > 1" "tl (Args cfg') = tl (Args cfg)" by simp_all
  have unknown: "\<exists>v m. v \<in> set (tl (Args cfg)) \<and> findProc g' v = None \<and>
       start w sp' cfg g = Return (Some (ErrorsNew (''unknown proc: '' @ v)), cfg',
                                  g'\<lparr>maxProcNameLength := m\<rparr>, None)"
    if "\<exists>v \<in> set (tl (Args cfg)). findProc g' v = None"
    for sp' :: "Config \<Rightarrow> globals \<Rightarrow> error option \<times> 'c"
  proof -
    from selectProcs_unknown [OF that, of "[]" 0] obtain v m where
      "selectProcs g' (tl (Args cfg)) ([], 0) = Inl (v, m)" "v \<in> set (tl (Args cfg))"
      "findProc g' v = None" by blast
    with assms(1) args show ?thesis by (auto simp: start_def)
  qed
  have exit: "MainWithConfig sys (Some cfg) g = Exit 1"
    if u: "\<exists>v \<in> set (tl (Args cfg)). findProc g' v = None"
      and s: "sys_world sys = w \<and> hd (Args cfg) = ''start''"
  proof -
    from unknown [OF u, of "startProcs sys"] s obtain e r where
      "start (sys_world sys) (startProcs sys) cfg g = Return (Some e, r)" by blast
    moreover from assms(2) have "Args cfg \<noteq> []" by auto
    ultimately show ?thesis using s by (simp add: MainWithConfig_start_error)
  qed
  have found: "\<exists>g''. start w sp cfg g =
                     Return (fst (sp cfg' g''), cfg', g'', Some (snd (sp cfg' g''))) \<and>
                   map name (procs g'') = tl (Args cfg) \<and> set (procs g'') \<subseteq> set (procs g')"
    if "\<forall>v \<in> set (tl (Args cfg)). findProc g' v \<noteq> None"
  proof -
    from selectProcs_found [OF that, of "[]" 0] obtain sel m where
      sel: "selectProcs g' (tl (Args cfg)) ([], 0) = Inr (sel, m)" "map name sel = tl (Args cfg)"
      "set sel \<subseteq> set (procs g')" by auto
    let ?g = "\<lparr>procs = sel, maxProcNameLength = m\<rparr>"
    from assms(1) args sel(1)
    have "start w sp cfg g = Return (fst (sp cfg' ?g), cfg', ?g, Some (snd (sp cfg' ?g)))"
      by (simp add: start_def Let_def split: prod.splits)
    with sel(2,3) show ?thesis
      by (intro exI [of _ ?g]) simp
  qed
  from unknown [of sp] exit found show ?thesis by blast
qed



theorem start_selects_names_witness:
  "readProcfile exampleWorld (namedConfig [''nope'']) noGlobals =
     Return (None, (namedConfig [''nope''])\<lparr>BasePort := 5200\<rparr>, exampleRegistry) \<and>
   1 < length (Args (namedConfig [''nope''])) \<and>
   findProc exampleRegistry ''nope'' = None \<and>
   start exampleWorld noSupervisor (namedConfig [''nope'']) noGlobals =
     Return (Some (ErrorsNew ''unknown proc: nope''), (namedConfig [''nope''])\<lparr>BasePort := 5200\<rparr>,
             exampleRegistry\<lparr>maxProcNameLength := 0\<rparr>, None) \<and>
   MainWithConfig (exampleSystem exampleWorld) (Some (namedConfig [''nope''])) noGlobals = Exit 1 \<and>
   readProcfile exampleWorld (namedConfig [''worker'']) noGlobals =
     Return (None, (namedConfig [''worker''])\<lparr>BasePort := 5200\<rparr>, exampleRegistry) \<and>
   1 < length (Args (namedConfig [''worker''])) \<and>
   findProc exampleRegistry ''worker'' = Some (procs exampleRegistry ! 1) \<and>
   start exampleWorld noSupervisor (namedConfig [''worker'']) noGlobals =
     Return (None, (namedConfig [''worker''])\<lparr>BasePort := 5200\<rparr>,
             \<lparr>procs = [procs exampleRegistry ! 1], maxProcNameLength = 6\<rparr>, Some ())"
proof -
  have l1: "readProcfile exampleWorld (namedConfig [''nope'']) noGlobals =
     Return (None, (namedConfig [''nope''])\<lparr>BasePort := 5200\<rparr>, exampleRegistry)"
    by code_simp
  have a1: "1 < length (Args (namedConfig [''nope'']))"
    by (simp add: namedConfig_def)
  have f1: "findProc exampleRegistry ''nope'' = None" by code_simp
  have s1: "start exampleWorld noSupervisor (namedConfig [''nope'']) noGlobals =
     Return (Some (ErrorsNew ''unknown proc: nope''), (namedConfig [''nope''])\<lparr>BasePort := 5200\<rparr>,
             exampleRegistry\<lparr>maxProcNameLength := 0\<rparr>, None)"
    by code_simp
  have l2: "readProcfile exampleWorld (namedConfig [''worker'']) noGlobals =
     Return (None, (namedConfig [''worker''])\<lparr>BasePort := 5200\<rparr>, exampleRegistry)"
    by code_simp
  have a2: "1 < length (Args (namedConfig [''worker'']))"
    by (simp add: namedConfig_def)
  have f2: "findProc exampleRegistry ''worker'' = Some (procs exampleRegistry ! 1)"
    by code_simp
  have s2: "start exampleWorld noSupervisor (namedConfig [''worker'']) noGlobals =
     Return (None, (namedConfig [''worker''])\<lparr>BasePort := 5200\<rparr>,
             \<lparr>procs = [procs exampleRegistry ! 1], maxProcNameLength = 6\<rparr>, Some ())"
    by code_simp
  have u: "\<exists>v \<in> set (tl (Args (namedConfig [''nope'']))). findProc exampleRegistry v = None"
    using f1 by (simp add: namedConfig_def)
  have w: "sys_world (exampleSystem exampleWorld) = exampleWorld \<and>
           hd (Args (namedConfig [''nope''])) = ''start''"
    by (simp add: exampleSystem_def namedConfig_def)
  from start_selects_names [OF l1 a1, of noSupervisor "exampleSystem exampleWorld"] u w
  have "MainWithConfig (exampleSystem exampleWorld) (Some (namedConfig [''nope''])) noGlobals = Exit 1"
    by blast
  with l1 a1 f1 s1 l2 a2 f2 s2 show ?thesis by blast
qed

subsection \<open>C5: assigned ports\<close>

text \<open>
  Claim C5 says that with port assignment the \<open>i\<close>-th entry gets the base port plus
  \<open>100 * i\<close> and that the ports therefore increase strictly along the registry. The
  ports are \<^verbatim>\<open>uint\<close> values and the addition wraps around: with a base port of
  \<open>2^64 - 100\<close> the second entry gets port 0, which is neither the base port plus 100
  as a number nor larger than the first port.
\<close>

theorem readProcfile_ports_wrap:
  "map port (loaded (readProcfile wrapWorld wrapConfig noGlobals)) = [18446744073709551516, 0] \<and>
   \<not> port (loaded (readProcfile wrapWorld wrapConfig noGlobals) ! 0)
       < port (loaded (readProcfile wrapWorld wrapConfig noGlobals) ! 1)"
  by code_simp

text \<open>
  Claim C5, amended. With port assignment the \<open>i\<close>-th entry of the registry gets the
  base port plus \<open>100 * i\<close> in \<^verbatim>\<open>uint\<close> arithmetic, that is modulo \<open>2^64\<close>; the ports
  increase strictly along the registry when the base port plus 100 times the number of
  entries but one stays below \<open>2^64\<close>.
\<close>

theorem readProcfile_ports:
  assumes "readProcfile w cfg g = Return (None, cfg', g')" and "SetPorts cfg"
  shows "(\<forall>i < length (procs g').
            setPort (procs g' ! i) \<and> port (procs g' ! i) = BasePort cfg + 100 * of_nat i) \<and>
         (unat (BasePort cfg) + 100 * (length (procs g') - 1) < 2 ^ 64 \<longrightarrow>
            (\<forall>i j. i < j \<and> j < length (procs g') \<longrightarrow>
               port (procs g' ! i) < port (procs g' ! j)))"
proof -
  from assms(1) obtain c where
    reg: "procs g' = entriesFrom w cfg 0 (filter isEntry (fileLines c))"
    by (rule readProcfile_loaded)
  have ports: "setPort (procs g' ! i) \<and> port (procs g' ! i) = BasePort cfg + 100 * of_nat i"
    if "i < length (procs g')" for i
    using that assms(2) reg by (simp add: entriesFrom_length entriesFrom_nth entryOf_def)
  have incr: "port (procs g' ! i) < port (procs g' ! j)"
    if fit: "unat (BasePort cfg) + 100 * (length (procs g') - 1) < 2 ^ 64"
      and ij: "i < j" "j < length (procs g')" for i j
  proof -
    from fit ij have "unat (BasePort cfg) + 100 * j < 2 ^ 64" by simp
    with ij have "unat (BasePort cfg) + 100 * i < 2 ^ 64" by simp
    then have ui: "unat (BasePort cfg + 100 * of_nat i) = unat (BasePort cfg) + 100 * i"
      by (rule port_no_wrap)
    from \<open>unat (BasePort cfg) + 100 * j < 2 ^ 64\<close>
    have uj: "unat (BasePort cfg + 100 * of_nat j) = unat (BasePort cfg) + 100 * j"
      by (rule port_no_wrap)
    from ij have "i < length (procs g')" by simp
    with ij ports ui uj show ?thesis by (simp add: word_less_nat_alt)
  qed
  from ports incr show ?thesis by blast
qed

theorem readProcfile_ports_witness:
  "readProcfile exampleWorld exampleConfig noGlobals =
     Return (None, exampleConfig\<lparr>BasePort := 5200\<rparr>, exampleRegistry) \<and>
   SetPorts exampleConfig \<and>
   port (procs exampleRegistry ! 1) = BasePort exampleConfig + 100 * of_nat 1 \<and>
   port (procs exampleRegistry ! 1) = 5100 \<and>
   unat (BasePort exampleConfig) + 100 * (length (procs exampleRegistry) - 1) < 2 ^ 64 \<and>
   port (procs exampleRegistry ! 0) < port (procs exampleRegistry ! 1)"
proof -
  have s: "SetPorts exampleConfig" by (simp add: exampleConfig_def)
  show ?thesis
    using example_load s readProcfile_ports [OF example_load s]
    by (simp add: exampleRegistry_def exampleConfig_def)
qed

subsection \<open>C6: names of the registry\<close>

text \<open>
  Claim C6 says that after loading every entry has a unique and non-empty name. The
  loader does not check either: a key that two lines share is loaded twice, and a key
  of white space only is loaded with the empty name.
\<close>

theorem readProcfile_names_not_checked:
  "map name (loaded (readProcfile
      \<lparr>fsys = (\<lambda>path. Contents (''a: x'' @ [CHR 0x0A] @ ''a: y'')), ncolors = 6,
       windows = False\<rparr>
      exampleConfig noGlobals)) = [''a'', ''a''] \<and>
   map name (loaded (readProcfile
      \<lparr>fsys = (\<lambda>path. Contents '' : x''), ncolors = 6, windows = False\<rparr>
      exampleConfig noGlobals)) = [[]]"
  by code_simp

text \<open>
  Claim C6, amended. After loading, the names of the registry are the trimmed keys of
  the entry lines of the file; when these keys are pairwise distinct and none of them
  is empty, no two entries share a name, no name is empty and \<^verbatim>\<open>findProc\<close> finds
  every entry by its name.
\<close>

theorem readProcfile_names:
  assumes "readProcfile w cfg g = Return (None, cfg', g')"
    and "fsys w (Procfile cfg) = Contents content"
    and "distinct (map keyOf (filter isEntry (fileLines content)))"
    and "[] \<notin> set (map keyOf (filter isEntry (fileLines content)))"
  shows "map name (procs g') = map keyOf (filter isEntry (fileLines content)) \<and>
         distinct (map name (procs g')) \<and>
         (\<forall>p \<in> set (procs g'). name p \<noteq> [] \<and> findProc g' (name p) = Some p)"
proof -
  from assms(1) obtain c where "fsys w (Procfile cfg) = Contents c"
    and "procs g' = entriesFrom w cfg 0 (filter isEntry (fileLines c))"
    by (rule readProcfile_loaded)
  with assms(2) have names: "map name (procs g') = map keyOf (filter isEntry (fileLines content))"
    by (simp add: entriesFrom_names)
  with assms(3) have d: "distinct (map name (procs g'))" by simp
  have "name p \<noteq> [] \<and> findProc g' (name p) = Some p" if p: "p \<in> set (procs g')" for p
  proof
    from p have "name p \<in> set (map name (procs g'))" by simp
    with names assms(4) show "name p \<noteq> []" by metis
    from d p show "findProc g' (name p) = Some p"
      unfolding findProc_def by (rule find_by_distinct_key)
  qed
  with names d show ?thesis by blast
qed

theorem readProcfile_names_witness:
  "readProcfile exampleWorld exampleConfig noGlobals =
     Return (None, exampleConfig\<lparr>BasePort := 5200\<rparr>, exampleRegistry) \<and>
   fsys exampleWorld (Procfile exampleConfig) = Contents exampleContent \<and>
   distinct (map keyOf (filter isEntry (fileLines exampleContent))) \<and>
   [] \<notin> set (map keyOf (filter isEntry (fileLines exampleContent))) \<and>
   distinct (map name (procs exampleRegistry)) \<and>
   findProc exampleRegistry ''worker'' = Some (procs exampleRegistry ! 1)"
proof -
  have d: "distinct (map keyOf (filter isEntry (fileLines exampleContent)))"
    by (simp add: example_keys)
  have n: "[] \<notin> set (map keyOf (filter isEntry (fileLines exampleContent)))"
    by (simp add: example_keys)
  have f: "findProc exampleRegistry ''worker'' = Some (procs exampleRegistry ! 1)"
    by (simp add: findProc_def exampleRegistry_def)
  from readProcfile_names [OF example_load example_file d n]
  have "distinct (map name (procs exampleRegistry))" by blast
  with example_load example_file d n f show ?thesis by blast
qed

subsection \<open>C7: colour indices\<close>

text \<open>
  Claim C7. The colour index of a loaded entry is its ordinal position among the valid
  entries modulo the size of the palette: the \<open>i\<close>-th entry of the registry, counting
  from 0, has colour index \<open>i mod len(colors)\<close>.
\<close>

theorem readProcfile_colorIndex:
  assumes "readProcfile w cfg g = Return (None, cfg', g')"
    and "i < length (procs g')"
  shows "colorIndex (procs g' ! i) = i mod ncolors w"
proof -
  from assms(1) obtain c where
    "procs g' = entriesFrom w cfg 0 (filter isEntry (fileLines c))"
    by (rule readProcfile_loaded)
  with assms(2) show ?thesis
    by (simp add: entriesFrom_length entriesFrom_nth entryOf_def)
qed

theorem readProcfile_colorIndex_witness:
  "readProcfile paletteWorld exampleConfig noGlobals =
     Return (None, exampleConfig\<lparr>BasePort := 5400\<rparr>, paletteRegistry) \<and>
   3 < length (procs paletteRegistry) \<and>
   colorIndex (procs paletteRegistry ! 3) = 3 mod ncolors paletteWorld \<and>
   colorIndex (procs paletteRegistry ! 3) = 0"
proof -
  have l: "readProcfile paletteWorld exampleConfig noGlobals =
     Return (None, exampleConfig\<lparr>BasePort := 5400\<rparr>, paletteRegistry)"
    by code_simp
  have n: "3 < length (procs paletteRegistry)" by (simp add: paletteRegistry_def)
  show ?thesis
    using l n readProcfile_colorIndex [OF l n] by (simp add: paletteWorld_def)
qed

subsection \<open>C8: defaults of the control protocol\<close>

text \<open>
  Claim C8. With \<^verbatim>\<open>GOREMAN_RPC_PORT\<close> and \<^verbatim>\<open>GOREMAN_RPC_ADDR\<close> unset the default
  port is 8555 and the default bind address is \<^verbatim>\<open>0.0.0.0\<close>; a value of
  \<^verbatim>\<open>GOREMAN_RPC_PORT\<close> that \<^verbatim>\<open>strconv.Atoi\<close> parses as an integer is the default
  port (converted to \<^verbatim>\<open>uint\<close>), and any value of \<^verbatim>\<open>GOREMAN_RPC_ADDR\<close>, the empty
  string too, is the default bind address.
\<close>

theorem default_port_and_addr:
  "(env ''GOREMAN_RPC_PORT'' = None \<longrightarrow> defaultPort env = 8555) \<and>
   (env ''GOREMAN_RPC_ADDR'' = None \<longrightarrow> defaultAddr env = ''0.0.0.0'') \<and>
   (env ''GOREMAN_RPC_PORT'' = Some s \<and> Atoi s = Some i \<longrightarrow> defaultPort env = word_of_int i) \<and>
   (env ''GOREMAN_RPC_ADDR'' = Some a \<longrightarrow> defaultAddr env = a)"
proof (intro conjI impI)
  assume "env ''GOREMAN_RPC_PORT'' = None"
  then show "defaultPort env = 8555" by (simp add: defaultPort_def Getenv_def)
next
  assume "env ''GOREMAN_RPC_ADDR'' = None"
  then show "defaultAddr env = ''0.0.0.0''" by (simp add: defaultAddr_def LookupEnv_def)
next
  assume a: "env ''GOREMAN_RPC_PORT'' = Some s \<and> Atoi s = Some i"
  then have "s \<noteq> []" by (auto simp: Atoi_def)
  with a show "defaultPort env = word_of_int i" by (simp add: defaultPort_def Getenv_def)
next
  assume "env ''GOREMAN_RPC_ADDR'' = Some a"
  then show "defaultAddr env = a" by (simp add: defaultAddr_def LookupEnv_def)
qed

theorem default_port_and_addr_witness:
  "Map.empty ''GOREMAN_RPC_PORT'' = (None :: string option) \<and>
   defaultPort Map.empty = 8555 \<and>
   Map.empty ''GOREMAN_RPC_ADDR'' = (None :: string option) \<and>
   defaultAddr Map.empty = ''0.0.0.0'' \<and>
   exampleEnv ''GOREMAN_RPC_PORT'' = Some ''9000'' \<and> Atoi ''9000'' = Some 9000 \<and>
   defaultPort exampleEnv = 9000 \<and>
   exampleEnv ''GOREMAN_RPC_ADDR'' = Some ''127.0.0.1'' \<and>
   defaultAddr exampleEnv = ''127.0.0.1''"
proof -
  have p: "exampleEnv ''GOREMAN_RPC_PORT'' = Some ''9000''" by (simp add: exampleEnv_def)
  have a: "exampleEnv ''GOREMAN_RPC_ADDR'' = Some ''127.0.0.1''" by (simp add: exampleEnv_def)
  have i: "Atoi ''9000'' = Some 9000" by code_simp
  from default_port_and_addr [of Map.empty]
  have 1: "defaultPort Map.empty = 8555" "defaultAddr Map.empty = ''0.0.0.0''" by simp_all
  from default_port_and_addr [of exampleEnv "''9000''" 9000 "''127.0.0.1''"] p a i
  have 2: "defaultPort exampleEnv = 9000" "defaultAddr exampleEnv = ''127.0.0.1''" by simp_all
  from 1 2 p a i show ?thesis by simp
qed

subsection \<open>C9: a line that starts with the separator\<close>

text \<open>
  Claim C9 says that \<^verbatim>\<open>readProcfile\<close> returns for every content of the file and never
  panics, also for a line whose text before the first separator is empty. On such a
  line \<^verbatim>\<open>tokens[0]\<close> is the empty string and \<^verbatim>\<open>tokens[0][0]\<close> is an index out of
  range: for the file \<^verbatim>\<open>:web\<close> the code panics.
\<close>

theorem readProcfile_panics:
  "readProcfile \<lparr>fsys = (\<lambda>path. Contents '':web''), ncolors = 6, windows = False\<rparr>
     exampleConfig noGlobals = Panic IndexOutOfRange"
  by code_simp

subsection \<open>C10: the default of the base port\<close>

text \<open>
  Claim C10. When \<^verbatim>\<open>ParseConfigWithFlagSet\<close> returns for arguments of which none is a
  \<^verbatim>\<open>-b\<close> flag, the \<open>BasePort\<close> of the configuration is \<^verbatim>\<open>defaultPort()\<close>: 8555 when
  \<^verbatim>\<open>GOREMAN_RPC_PORT\<close> is unset, and whatever that variable makes the default of the
  RPC port otherwise; it is not the 5000 that the struct tag of \<open>BasePort\<close> declares as
  default.
\<close>

theorem ParseConfig_default_BasePort:
  assumes "ParseConfigWithFlagSet env ParseUint fs args = Return cfg"
    and "\<forall>a \<in> set args. \<forall>v. argShape a \<noteq> Flag ''b'' v"
  shows "BasePort cfg = defaultPort env \<and>
         (env ''GOREMAN_RPC_PORT'' = None \<longrightarrow> BasePort cfg = 8555) \<and>
         GetTag ''BasePort'' ''default'' = ''5000''"
proof -
  let ?cfg0 = "\<lparr>Args = [], Procfile = ''Procfile'', StartRpcServer = True,
                      RpcPort = defaultPort env, BaseDir = [], BasePort = defaultPort env,
                      ExitOnError = False, ExitOnStop = True, SetPorts = True,
                      LogTime = True\<rparr>"
  obtain cfg' rest err where p: "Parse ParseUint fs ?cfg0 args = (cfg', rest, err)"
    by (cases "Parse ParseUint fs ?cfg0 args") auto
  from Parse_BasePort [OF assms(2), where ParseUint = ParseUint and fs = fs and cfg = ?cfg0] p
  have "BasePort cfg' = defaultPort env" by simp
  moreover from assms(1) p have "cfg = cfg'\<lparr>Args := (if length rest > 0 then rest else args)\<rparr>"
    by (auto simp: ParseConfigWithFlagSet_def Let_def
             split: option.splits ErrorHandling.splits if_splits)
  ultimately have b: "BasePort cfg = defaultPort env" by simp
  moreover have "env ''GOREMAN_RPC_PORT'' = None \<longrightarrow> defaultPort env = 8555"
    by (simp add: defaultPort_def Getenv_def)
  moreover have "GetTag ''BasePort'' ''default'' = ''5000''" by code_simp
  ultimately show ?thesis by simp
qed

theorem ParseConfig_default_BasePort_witness:
  "map argShape exampleArgs = [Flag ''f'' None, NonFlag, NonFlag, NonFlag] \<and>
   ParseConfig Map.empty noUint exampleArgs = Return (parsedConfig 8555) \<and>
   BasePort (parsedConfig 8555) = defaultPort Map.empty \<and>
   BasePort (parsedConfig 8555) = 8555 \<and>
   ParseConfig exampleEnv noUint exampleArgs = Return (parsedConfig 9000) \<and>
   BasePort (parsedConfig 9000) = defaultPort exampleEnv \<and>
   GetTag ''BasePort'' ''default'' = ''5000''"
proof -
  have s: "map argShape exampleArgs = [Flag ''f'' None, NonFlag, NonFlag, NonFlag]"
    by code_simp
  then have n: "\<forall>a \<in> set exampleArgs. \<forall>v. argShape a \<noteq> Flag ''b'' v"
    by (simp add: exampleArgs_def)
  have p1: "ParseConfigWithFlagSet Map.empty noUint
              \<lparr>errorHandling = flag_ExitOnError, formal = Map.empty\<rparr> exampleArgs =
            Return (parsedConfig 8555)"
    by code_simp
  have p2: "ParseConfigWithFlagSet exampleEnv noUint
              \<lparr>errorHandling = flag_ExitOnError, formal = Map.empty\<rparr> exampleArgs =
            Return (parsedConfig 9000)"
    by code_simp
  have e: "Map.empty ''GOREMAN_RPC_PORT'' = (None :: string option)" by simp
  have q1: "ParseConfig Map.empty noUint exampleArgs = Return (parsedConfig 8555)"
    using p1 by (simp add: ParseConfig_def)
  have q2: "ParseConfig exampleEnv noUint exampleArgs = Return (parsedConfig 9000)"
    using p2 by (simp add: ParseConfig_def)
  from ParseConfig_default_BasePort [OF p1 n] e
  have a: "BasePort (parsedConfig 8555) = defaultPort Map.empty"
    "BasePort (parsedConfig 8555) = 8555" "GetTag ''BasePort'' ''default'' = ''5000''"
    by blast+
  from ParseConfig_default_BasePort [OF p2 n]
  have b: "BasePort (parsedConfig 9000) = defaultPort exampleEnv" by blast
  from s q1 q2 a b show ?thesis by blast
qed

end
